theory Spec2Isabelle
  imports Complex_Main
begin

section \<open>JavaScript values\<close>

text \<open>
  The credential file is read with \<^verbatim>\<open>JSON.parse\<close>, so the values the credential store
  handles are JSON values. An object is the list of its members (looked up by key with
  \<open>map_of\<close>); \<open>undefined\<close>, the result of reading a member that is not there, is
  \<open>None\<close> of \<open>json option\<close>. The code below only tests numbers for truthiness and
  converts them to text, so a number is modelled by an integer.
\<close>

datatype json =
    JNull
  | JBool bool
  | JNum int
  | JStr string
  | JArr "json list"
  | JObj "(string \<times> json) list"

text \<open>\<^verbatim>\<open>!!v\<close>: \<open>null\<close>, \<open>false\<close>, \<open>0\<close> and the empty string are falsy.\<close>

fun truthy :: "json \<Rightarrow> bool" where
  "truthy JNull = False"
| "truthy (JBool b) = b"
| "truthy (JNum n) = (n \<noteq> 0)"
| "truthy (JStr s) = (s \<noteq> [])"
| "truthy (JArr xs) = True"
| "truthy (JObj kvs) = True"

text \<open>\<^verbatim>\<open>v.key\<close> for a value \<open>v\<close> that is not \<open>null\<close>: a member of an object, and
  \<open>undefined\<close> on every other value (none of the keys read below is a property of
  a string, number, boolean or array).\<close>

fun js_get :: "json \<Rightarrow> string \<Rightarrow> json option" where
  "js_get (JObj kvs) k = map_of kvs k"
| "js_get v k = None"

text \<open>Truthiness of a value that may be \<open>undefined\<close>.\<close>

fun truthy_opt :: "json option \<Rightarrow> bool" where
  "truthy_opt None = False"
| "truthy_opt (Some v) = truthy v"

text \<open>\<^verbatim>\<open>a || b\<close>.\<close>

definition js_or :: "json option \<Rightarrow> json option \<Rightarrow> json option" where
  "js_or a b = (if truthy_opt a then a else b)"

section \<open>CredentialStore: reading the saved record (custom/domainAuth.js, src/unnamed/part 000)\<close>

text \<open>
  \<^verbatim>\<open>
  function fixCredentialsFormat(creds) {
    if (!creds || !creds.credentials) return creds;
    if (creds.credentials.server && creds.credentials.user && creds.credentials.password) {
      return {
        serverUrl: creds.serverUrl || creds.credentials.server,
        credentials: { username: creds.credentials.user, password: creds.credentials.password }
      };
    }
    return creds;
  }
  \<close>
\<close>

definition fixCredentialsFormat :: "json \<Rightarrow> json" where
  "fixCredentialsFormat creds =
     (if \<not> truthy creds then creds
      else case js_get creds ''credentials'' of
        None \<Rightarrow> creds
      | Some c \<Rightarrow>
          if \<not> truthy c then creds
          else if truthy_opt (js_get c ''server'') \<and> truthy_opt (js_get c ''user'')
                  \<and> truthy_opt (js_get c ''password'')
          then (case (js_or (js_get creds ''serverUrl'') (js_get c ''server''),
                      js_get c ''user'', js_get c ''password'') of
                  (Some s, Some u, Some p) \<Rightarrow>
                    JObj [(''serverUrl'', s),
                          (''credentials'', JObj [(''username'', u), (''password'', p)])]
                | _ \<Rightarrow> creds)
          else creds)"

text \<open>
  What \<^verbatim>\<open>readSaved\<close> finds at the credential path: no file
  (\<^verbatim>\<open>fs.existsSync\<close> is false), a file that \<^verbatim>\<open>fs.readFileSync\<close> or
  \<^verbatim>\<open>JSON.parse\<close> throws on, or a file holding a JSON value.
\<close>

datatype cred_file = Missing | Unparsable | Holds json

text \<open>
  \<^verbatim>\<open>
  function readSaved(app) {
    try {
      const p = credsPath(app);
      if (fs.existsSync(p)) {
        const content = fs.readFileSync(p, 'utf8');
        let creds = JSON.parse(content);
        creds = fixCredentialsFormat(creds);
        return creds;
      }
    } catch (error) { ... }
    return null;
  }
  \<close>
\<close>

fun readSaved :: "cred_file \<Rightarrow> json" where
  "readSaved (Holds v) = fixCredentialsFormat v"
| "readSaved Unparsable = JNull"
| "readSaved Missing = JNull"

section \<open>Strings\<close>

text \<open>
  A JavaScript string is modelled by the bytes of its UTF-8 encoding, one \<open>char\<close> per
  byte. Every delimiter the code looks for is ASCII, so \<^verbatim>\<open>startsWith\<close>,
  \<^verbatim>\<open>substring\<close>, \<^verbatim>\<open>split\<close>, \<^verbatim>\<open>indexOf\<close> and the replacements
  act on the bytes as they act on the string, and \<^verbatim>\<open>encodeURIComponent\<close> and
  \<^verbatim>\<open>decodeURIComponent\<close>, which are defined through UTF-8, act on the bytes directly.
  (A string holding an unpaired surrogate has no UTF-8 encoding and is outside the model.)
\<close>

definition startsWith :: "string \<Rightarrow> string \<Rightarrow> bool" where
  "startsWith s p = (take (length p) s = p)"

text \<open>\<^verbatim>\<open>s.split(c)\<close> for a one-character separator: never the empty list.\<close>

fun js_split :: "char \<Rightarrow> string \<Rightarrow> string list" where
  "js_split c [] = [[]]"
| "js_split c (x # xs) =
     (if x = c then [] # js_split c xs
      else case js_split c xs of
             w # ws \<Rightarrow> (x # w) # ws
           | [] \<Rightarrow> [[x]])"

text \<open>\<^verbatim>\<open>s.indexOf(c)\<close>; \<open>None\<close> is the result \<open>-1\<close>.\<close>

fun indexOf :: "char \<Rightarrow> string \<Rightarrow> nat option" where
  "indexOf c [] = None"
| "indexOf c (x # xs) = (if x = c then Some 0 else map_option Suc (indexOf c xs))"

text \<open>\<^verbatim>\<open>s.replaceAll(c, d)\<close> and \<^verbatim>\<open>s.replace(/c/g, d)\<close> for single characters.\<close>

definition replaceAll :: "char \<Rightarrow> char \<Rightarrow> string \<Rightarrow> string" where
  "replaceAll c d s = map (\<lambda>x. if x = c then d else x) s"

text \<open>\<^verbatim>\<open>s.replace(/%20/g, '+')\<close>: matches are found left to right and do not overlap.\<close>

fun replace_pct20 :: "string \<Rightarrow> string" where
  "replace_pct20 (a # b # c # rest) =
     (if a = CHR ''%'' \<and> b = CHR ''2'' \<and> c = CHR ''0'' then CHR ''+'' # replace_pct20 rest
      else a # replace_pct20 (b # c # rest))"
| "replace_pct20 s = s"

text \<open>\<^verbatim>\<open>s.split(sep)[0]\<close>: the part of \<open>s\<close> before the first occurrence of \<open>sep\<close>,
  all of \<open>s\<close> when there is none.\<close>

fun split_head :: "string \<Rightarrow> string \<Rightarrow> string" where
  "split_head sep [] = []"
| "split_head sep (x # xs) =
     (if sep \<noteq> [] \<and> take (length sep) (x # xs) = sep then [] else x # split_head sep xs)"

subsection \<open>encodeURIComponent and decodeURIComponent\<close>

definition uriUnreserved :: "char \<Rightarrow> bool" where
  "uriUnreserved c =
     (c \<in> set ''ABCDEFGHIJKLMNOPQRSTUVWXYZabcdefghijklmnopqrstuvwxyz0123456789-_.!~*()''
      \<or> c = CHR 0x27)"

definition hexDigit :: "nat \<Rightarrow> char" where
  "hexDigit n = ''0123456789ABCDEF'' ! (n mod 16)"

definition pctEncode :: "char \<Rightarrow> string" where
  "pctEncode c = [CHR ''%'', hexDigit (of_char c div 16), hexDigit (of_char c mod 16)]"

text \<open>Each byte of the UTF-8 encoding that is not an unreserved character becomes
  \<open>%XX\<close> with upper-case hexadecimal digits.\<close>

definition encodeURIComponent :: "string \<Rightarrow> string" where
  "encodeURIComponent s = concat (map (\<lambda>c. if uriUnreserved c then [c] else pctEncode c) s)"

definition hexVal :: "char \<Rightarrow> nat option" where
  "hexVal c =
     (let n = (of_char c :: nat) in
      if 48 \<le> n \<and> n \<le> 57 then Some (n - 48)
      else if 65 \<le> n \<and> n \<le> 70 then Some (n - 55)
      else if 97 \<le> n \<and> n \<le> 102 then Some (n - 87)
      else None)"

text \<open>
  The first byte of a multi-byte UTF-8 sequence: how many continuation bytes follow it and
  the range the first of them must lie in (the table of well-formed UTF-8 sequences of the
  Unicode standard, which excludes overlong forms, surrogates and values past U+10FFFF).
  \<open>None\<close> for a byte that cannot start a sequence.
\<close>

definition utf8Lead :: "nat \<Rightarrow> (nat \<times> nat \<times> nat) option" where
  "utf8Lead b =
     (if 0xC2 \<le> b \<and> b \<le> 0xDF then Some (1, 0x80, 0xBF)
      else if b = 0xE0 then Some (2, 0xA0, 0xBF)
      else if 0xE1 \<le> b \<and> b \<le> 0xEC then Some (2, 0x80, 0xBF)
      else if b = 0xED then Some (2, 0x80, 0x9F)
      else if 0xEE \<le> b \<and> b \<le> 0xEF then Some (2, 0x80, 0xBF)
      else if b = 0xF0 then Some (3, 0x90, 0xBF)
      else if 0xF1 \<le> b \<and> b \<le> 0xF3 then Some (3, 0x80, 0xBF)
      else if b = 0xF4 then Some (3, 0x80, 0x8F)
      else None)"

text \<open>
  The decoding loop of \<^verbatim>\<open>decodeURIComponent\<close>. \<open>k\<close> is the number of continuation
  escapes the sequence being read still needs (0 outside a sequence) and \<open>lo\<close>, \<open>hi\<close>
  bound the next one. \<open>None\<close> is the \<^verbatim>\<open>URIError\<close>: a \<open>%\<close> without two hexadecimal
  digits, or escapes that are not a well-formed UTF-8 sequence.
\<close>

fun decodeFrom :: "nat \<Rightarrow> nat \<Rightarrow> nat \<Rightarrow> string \<Rightarrow> string option" where
  "decodeFrom k lo hi [] = (if k = 0 then Some [] else None)"
| "decodeFrom k lo hi (c # cs) =
     (if c \<noteq> CHR ''%''
      then (if k = 0 then map_option ((#) c) (decodeFrom 0 0 0 cs) else None)
      else case cs of
        x # y # rest \<Rightarrow>
          (case (hexVal x, hexVal y) of
             (Some a, Some b) \<Rightarrow>
               (let B = 16 * a + b in
                if k = 0
                then (if B < 0x80 then map_option ((#) (char_of B)) (decodeFrom 0 0 0 rest)
                      else case utf8Lead B of
                             None \<Rightarrow> None
                           | Some (n, lo', hi') \<Rightarrow>
                               map_option ((#) (char_of B)) (decodeFrom n lo' hi' rest))
                else (if lo \<le> B \<and> B \<le> hi
                      then map_option ((#) (char_of B)) (decodeFrom (k - 1) 0x80 0xBF rest)
                      else None))
           | _ \<Rightarrow> None)
      | _ \<Rightarrow> None)"

definition decodeURIComponent :: "string \<Rightarrow> string option" where
  "decodeURIComponent s = decodeFrom 0 0 0 s"

subsection \<open>The URL constructor\<close>

text \<open>
  \<^verbatim>\<open>new URL(s)\<close> is the platform's URL parser. Without a base URL it first removes
  leading and trailing C0 control characters and spaces and every tab and newline, and
  then needs a scheme: an ASCII letter, followed by letters, digits, \<open>+\<close>, \<open>-\<close> and
  \<open>.\<close>, up to a colon. An input with no scheme is rejected at this point whatever
  follows. This much is modelled exactly. Whether the parser accepts what follows the
  scheme (host, port, path) is not modelled: it is the parameter \<open>tail\<close>, a predicate
  on the scheme and the rest of the input, and the theorems below hold for every such
  predicate unless they say otherwise.
\<close>

type_synonym url_tail = "string \<Rightarrow> string \<Rightarrow> bool"

definition isC0OrSpace :: "char \<Rightarrow> bool" where
  "isC0OrSpace c = ((of_char c :: nat) \<le> 0x20)"

definition isTabOrNewline :: "char \<Rightarrow> bool" where
  "isTabOrNewline c = (c = CHR 0x09 \<or> c = CHR 0x0A \<or> c = CHR 0x0D)"

definition urlInput :: "string \<Rightarrow> string" where
  "urlInput s =
     filter (\<lambda>c. \<not> isTabOrNewline c)
       (rev (dropWhile isC0OrSpace (rev (dropWhile isC0OrSpace s))))"

definition isAsciiAlpha :: "char \<Rightarrow> bool" where
  "isAsciiAlpha c =
     (let n = (of_char c :: nat) in (65 \<le> n \<and> n \<le> 90) \<or> (97 \<le> n \<and> n \<le> 122))"

definition isSchemeChar :: "char \<Rightarrow> bool" where
  "isSchemeChar c =
     (let n = (of_char c :: nat) in
      isAsciiAlpha c \<or> (48 \<le> n \<and> n \<le> 57) \<or> c = CHR ''+'' \<or> c = CHR ''-'' \<or> c = CHR ''.'')"

definition asciiLower :: "char \<Rightarrow> char" where
  "asciiLower c =
     (let n = (of_char c :: nat) in if 65 \<le> n \<and> n \<le> 90 then char_of (n + 32) else c)"

text \<open>The scheme (in lower case) and what follows its colon; \<open>None\<close> when the input has
  no scheme.\<close>

definition urlScheme :: "string \<Rightarrow> (string \<times> string) option" where
  "urlScheme s =
     (case s of
        [] \<Rightarrow> None
      | c # cs \<Rightarrow>
          if isAsciiAlpha c
          then (case dropWhile isSchemeChar cs of
                  d # rest \<Rightarrow>
                    if d = CHR '':''
                    then Some (map asciiLower (c # takeWhile isSchemeChar cs), rest)
                    else None
                | [] \<Rightarrow> None)
          else None)"

text \<open>\<^verbatim>\<open>new URL(s).protocol\<close>: the scheme with its colon. \<open>None\<close> when the constructor
  throws its \<^verbatim>\<open>TypeError\<close>.\<close>

definition newURL :: "url_tail \<Rightarrow> string \<Rightarrow> string option" where
  "newURL tail s =
     (case urlScheme (urlInput s) of
        None \<Rightarrow> None
      | Some (scheme, rest) \<Rightarrow> if tail scheme rest then Some (scheme @ '':'') else None)"

text \<open>The most permissive parser: every input that has a scheme is accepted.\<close>

definition anyTail :: url_tail where
  "anyTail scheme rest = True"

section \<open>LoginURLCodec (authentication/login.service.js)\<close>

record credentials =
  server :: string
  user :: string
  password :: string
  code :: "string option"
  state :: "string option"

text \<open>One constructor for each \<^verbatim>\<open>throw new Error(...)\<close> of the two functions, holding
  what the message interpolates.\<close>

datatype codec_error =
    InvalidUrl
  | InvalidProtocol string
  | MissingEndpoint
  | InvalidEndpoint string
  | MissingParameters
  | MissingParameter string
  | InvalidServerUrl string string
  | InvalidServer string

text \<open>\<^verbatim>\<open>error.message\<close>. The \<^verbatim>\<open>TypeError\<close> of the URL constructor has the message
  \<open>Invalid URL\<close>.\<close>

fun error_message :: "codec_error \<Rightarrow> string" where
  "error_message InvalidUrl = ''Invalid URL: URL must be a non-empty string''"
| "error_message (InvalidProtocol got) =
     ''Invalid protocol. Expected '' @ [CHR 0x22] @ ''nc://'' @ [CHR 0x22] @ '', got ''
       @ [CHR 0x22] @ got @ ''://'' @ [CHR 0x22]"
| "error_message MissingEndpoint = ''Invalid URL: Missing endpoint after protocol''"
| "error_message (InvalidEndpoint got) =
     ''Invalid endpoint. Expected '' @ [CHR 0x22] @ ''login/'' @ [CHR 0x22] @ '', got ''
       @ [CHR 0x22] @ got @ ''/'' @ [CHR 0x22]"
| "error_message MissingParameters = ''Invalid URL: Missing parameters after login/''"
| "error_message (MissingParameter k) = ''Missing required parameter: '' @ k"
| "error_message (InvalidServerUrl srv why) = ''Invalid server URL: '' @ srv @ '' - '' @ why"
| "error_message (InvalidServer srv) = ''Invalid server URL: '' @ srv"

text \<open>
  The body of the loop over the pairs:
  \<^verbatim>\<open>
  if (!pair) continue
  const firstColonIndex = pair.indexOf(':')
  if (firstColonIndex === -1) continue
  const key = pair.substring(0, firstColonIndex)
  const value = pair.substring(firstColonIndex + 1)
  if (!key || !value) continue
  if (key === 'server') {
      params[key] = value
  } else if (key === 'code' || key === 'state') {
      try { params[key] = decodeURIComponent(value) } catch (e) { params[key] = value }
  } else {
      try { params[key] = decodeURIComponent(value.replaceAll('+', ' ')) }
      catch (e) { params[key] = value.replaceAll('+', ' ') }
  }
  \<close>
\<close>

definition parsePair :: "string \<Rightarrow> (string \<rightharpoonup> string) \<Rightarrow> (string \<rightharpoonup> string)" where
  "parsePair pair params =
     (if pair = [] then params
      else case indexOf CHR '':'' pair of
        None \<Rightarrow> params
      | Some firstColonIndex \<Rightarrow>
          (let key = take firstColonIndex pair;
               val = drop (firstColonIndex + 1) pair
           in if key = [] \<or> val = [] then params
              else if key = ''server'' then params(key \<mapsto> val)
              else if key = ''code'' \<or> key = ''state''
              then params(key \<mapsto> (case decodeURIComponent val of Some d \<Rightarrow> d | None \<Rightarrow> val))
              else params(key \<mapsto>
                     (case decodeURIComponent (replaceAll CHR ''+'' CHR '' '' val) of
                        Some d \<Rightarrow> d
                      | None \<Rightarrow> replaceAll CHR ''+'' CHR '' '' val))))"

fun parsePairs :: "string list \<Rightarrow> (string \<rightharpoonup> string) \<Rightarrow> (string \<rightharpoonup> string)" where
  "parsePairs [] params = params"
| "parsePairs (pair # pairs) params = parsePairs pairs (parsePair pair params)"

text \<open>\<^verbatim>\<open>!params.key\<close>: the key was never set, or holds the empty string.\<close>

definition missing :: "(string \<rightharpoonup> string) \<Rightarrow> string \<Rightarrow> bool" where
  "missing params k = (case params k of None \<Rightarrow> True | Some v \<Rightarrow> v = [])"

text \<open>\<^verbatim>\<open>if (params.key) credentials.key = params.key\<close>.\<close>

definition optional :: "(string \<rightharpoonup> string) \<Rightarrow> string \<Rightarrow> string option" where
  "optional params k = (case params k of None \<Rightarrow> None | Some v \<Rightarrow> if v = [] then None else Some v)"

definition required :: "(string \<rightharpoonup> string) \<Rightarrow> string \<Rightarrow> string" where
  "required params k = (case params k of None \<Rightarrow> [] | Some v \<Rightarrow> v)"

text \<open>
  \<^verbatim>\<open>parseLoginRedirectUrl(url)\<close>, lines 24 to 142: the checks in the order of the
  source, each \<^verbatim>\<open>throw\<close> an \<open>Inl\<close>.
\<close>

definition parseLoginRedirectUrl :: "url_tail \<Rightarrow> string \<Rightarrow> codec_error + credentials" where
  "parseLoginRedirectUrl tail url =
     (if url = [] then Inl InvalidUrl
      else if \<not> startsWith url ''nc://'' then Inl (InvalidProtocol (split_head ''://'' url))
      else let withoutProtocol = drop 5 url in
      if withoutProtocol = [] then Inl MissingEndpoint
      else if \<not> startsWith withoutProtocol ''login/''
      then Inl (InvalidEndpoint (split_head ''/'' withoutProtocol))
      else let paramsString = drop 6 withoutProtocol in
      if paramsString = [] then Inl MissingParameters
      else let params = parsePairs (js_split CHR ''&'' paramsString) Map.empty in
      if missing params ''server'' then Inl (MissingParameter ''server'')
      else if missing params ''user'' then Inl (MissingParameter ''user'')
      else if missing params ''password'' then Inl (MissingParameter ''password'')
      else case newURL tail (required params ''server'') of
        None \<Rightarrow> Inl (InvalidServerUrl (required params ''server'') ''Invalid URL'')
      | Some protocol \<Rightarrow>
          if \<not> startsWith protocol ''http''
          then Inl (InvalidServerUrl (required params ''server'')
                      ''Server URL must use HTTP or HTTPS protocol'')
          else Inr \<lparr> server = required params ''server'',
                     user = required params ''user'',
                     password = required params ''password'',
                     code = optional params ''code'',
                     state = optional params ''state'' \<rparr>)"

text \<open>
  \<^verbatim>\<open>buildLoginRedirectUrl(credentials)\<close>, lines 151 to 207. A field that is absent or
  empty is falsy.
\<close>

definition encodeValue :: "string \<Rightarrow> string" where
  "encodeValue v = replace_pct20 (encodeURIComponent v)"

definition buildLoginRedirectUrl :: "url_tail \<Rightarrow> credentials \<Rightarrow> codec_error + string" where
  "buildLoginRedirectUrl tail c =
     (if server c = [] then Inl (MissingParameter ''server'')
      else if user c = [] then Inl (MissingParameter ''user'')
      else if password c = [] then Inl (MissingParameter ''password'')
      else case newURL tail (server c) of
        None \<Rightarrow> Inl (InvalidServer (server c))
      | Some protocol \<Rightarrow>
          Inr (''nc://login/server:'' @ encodeValue (server c)
                 @ ''&user:'' @ encodeValue (user c)
                 @ ''&password:'' @ encodeValue (password c)
                 @ (case code c of
                      None \<Rightarrow> []
                    | Some v \<Rightarrow> if v = [] then [] else ''&code:'' @ encodeValue v)
                 @ (case state c of
                      None \<Rightarrow> []
                    | Some v \<Rightarrow> if v = [] then [] else ''&state:'' @ encodeValue v)))"

text \<open>\<^verbatim>\<open>isValidLoginFlowUrl(url)\<close>: whether parsing does not throw.\<close>

definition isValidLoginFlowUrl :: "url_tail \<Rightarrow> string \<Rightarrow> bool" where
  "isValidLoginFlowUrl tail url =
     (if url = [] then False
      else case parseLoginRedirectUrl tail url of Inl e \<Rightarrow> False | Inr c \<Rightarrow> True)"

text \<open>\<^verbatim>\<open>extractOAuthParams(url)\<close>: the \<open>code\<close> and \<open>state\<close> of a valid URL, and the empty
  object otherwise.\<close>

definition extractOAuthParams :: "url_tail \<Rightarrow> string \<Rightarrow> string option \<times> string option" where
  "extractOAuthParams tail url =
     (if \<not> isValidLoginFlowUrl tail url then (None, None)
      else case parseLoginRedirectUrl tail url of
        Inl e \<Rightarrow> (None, None)
      | Inr c \<Rightarrow> (code c, state c))"

section \<open>AuthStrategyResolver (custom/domainAuth.js, src/unnamed/part 000)\<close>

text \<open>Decimal digits of a number, for \<^verbatim>\<open>String(n)\<close> and template strings.\<close>

definition decimalDigit :: "nat \<Rightarrow> char" where
  "decimalDigit n = ''0123456789'' ! (n mod 10)"

fun showNat :: "nat \<Rightarrow> string" where
  "showNat n =
     (if n < 10 then [decimalDigit n] else showNat (n div 10) @ [decimalDigit (n mod 10)])"

declare showNat.simps [simp del]

definition showInt :: "int \<Rightarrow> string" where
  "showInt i = (if i < 0 then CHR ''-'' # showNat (nat (- i)) else showNat (nat i))"

fun js_join :: "string list \<Rightarrow> string" where
  "js_join [] = []"
| "js_join [x] = x"
| "js_join (x # y # ys) = x @ '','' @ js_join (y # ys)"

text \<open>\<^verbatim>\<open>String(v)\<close>, which the URL constructor applies to its argument: an array is its
  elements joined by commas, \<open>null\<close> elements as empty strings.\<close>

fun js_toString :: "json \<Rightarrow> string" where
  "js_toString JNull = ''null''"
| "js_toString (JBool b) = (if b then ''true'' else ''false'')"
| "js_toString (JNum n) = showInt n"
| "js_toString (JStr s) = s"
| "js_toString (JArr xs) = js_join (map (\<lambda>x. if x = JNull then [] else js_toString x) xs)"
| "js_toString (JObj kvs) = ''[object Object]''"

text \<open>
  \<^verbatim>\<open>
  function validateCredentials(creds) {
    if (!creds || !creds.serverUrl || !creds.credentials) return false;
    try { new URL(creds.serverUrl); } catch { return false; }
    const auth = creds.credentials;
    if (auth.username && auth.password) return true;
    if (auth.type === 'oauth') return !!(auth.token && auth.username);
    return false;
  }
  \<close>
\<close>

definition validateCredentials :: "url_tail \<Rightarrow> json \<Rightarrow> bool" where
  "validateCredentials tail creds =
     (if \<not> truthy creds then False
      else if \<not> truthy_opt (js_get creds ''serverUrl'') then False
      else if \<not> truthy_opt (js_get creds ''credentials'') then False
      else
        (case (js_get creds ''serverUrl'', js_get creds ''credentials'') of
           (Some serverUrl, Some auth) \<Rightarrow>
             (case newURL tail (js_toString serverUrl) of
                None \<Rightarrow> False
              | Some protocol \<Rightarrow>
                  if truthy_opt (js_get auth ''username'') \<and> truthy_opt (js_get auth ''password'')
                  then True
                  else if js_get auth ''type'' = Some (JStr ''oauth'')
                  then truthy_opt (js_get auth ''token'') \<and> truthy_opt (js_get auth ''username'')
                  else False)
         | _ \<Rightarrow> False))"

text \<open>\<^verbatim>\<open>v?.key\<close>: \<open>undefined\<close> when \<open>v\<close> is \<open>null\<close> or \<open>undefined\<close>.\<close>

fun js_get_opt :: "json option \<Rightarrow> string \<Rightarrow> json option" where
  "js_get_opt None k = None"
| "js_get_opt (Some JNull) k = None"
| "js_get_opt (Some v) k = js_get v k"

text \<open>\<^verbatim>\<open>v || null\<close>.\<close>

definition or_null :: "json option \<Rightarrow> json" where
  "or_null v = (case v of None \<Rightarrow> JNull | Some x \<Rightarrow> if truthy x then x else JNull)"

record auth_state =
  inDomain :: bool
  hasCreds :: bool
  savedCreds :: json
  expectedDomain :: json

text \<open>
  \<^verbatim>\<open>
  async function detectAuthState(app, BUILD_CONFIG) {
    const expectedDomain =
      (BUILD_CONFIG && (BUILD_CONFIG.adDomain || BUILD_CONFIG?.sso?.realm)) || null;
    const saved = readSaved(app);
    const inDomain = isOnDomain(expectedDomain);
    return { inDomain, hasCreds: !!saved, creds: saved || null, expectedDomain };
  }
  \<close>
  \<^verbatim>\<open>isOnDomain\<close> runs \<^verbatim>\<open>whoami\<close> and reads the environment; its answer is the
  argument \<open>onDomain\<close>. \<open>BUILD_CONFIG\<close> is \<open>None\<close> when it is \<open>undefined\<close>. The field
  \<open>creds\<close> of the result is \<open>savedCreds\<close> here.
\<close>

definition detectAuthState :: "bool \<Rightarrow> cred_file \<Rightarrow> json option \<Rightarrow> auth_state" where
  "detectAuthState onDomain file BUILD_CONFIG =
     (let saved = readSaved file in
      \<lparr> inDomain = onDomain,
        hasCreds = truthy saved,
        savedCreds = or_null (Some saved),
        expectedDomain =
          (if truthy_opt BUILD_CONFIG
           then or_null (js_or (js_get_opt BUILD_CONFIG ''adDomain'')
                               (js_get_opt (js_get_opt BUILD_CONFIG ''sso'') ''realm''))
           else or_null BUILD_CONFIG) \<rparr>)"

text \<open>The strategy object; a field that the object literal does not set is \<open>None\<close>.\<close>

record strategy =
  type :: string
  reason :: string
  creds :: "json option"
  serverUrl :: "json option"

text \<open>
  \<^verbatim>\<open>
  async function determineAuthStrategy(app, BUILD_CONFIG) {
    const state = await detectAuthState(app, BUILD_CONFIG);
    let strategy;
    if (state.inDomain) {
      strategy = { type: 'saml', reason: 'domain_joined',
                   serverUrl: BUILD_CONFIG?.domain || state.creds?.serverUrl };
    } else if (state.hasCreds) {
      strategy = { type: 'file', reason: 'credentials_file_found',
                   creds: state.creds, serverUrl: state.creds.serverUrl };
    } else {
      strategy = { type: 'manual', reason: 'no_auto_auth_available',
                   serverUrl: BUILD_CONFIG?.domain };
    }
    return strategy;
  }
  \<close>
\<close>

definition determineAuthStrategy :: "bool \<Rightarrow> cred_file \<Rightarrow> json option \<Rightarrow> strategy" where
  "determineAuthStrategy onDomain file BUILD_CONFIG =
     (let st = detectAuthState onDomain file BUILD_CONFIG in
      if inDomain st
      then \<lparr> type = ''saml'', reason = ''domain_joined'', creds = None,
             serverUrl = js_or (js_get_opt BUILD_CONFIG ''domain'')
                               (js_get_opt (Some (savedCreds st)) ''serverUrl'') \<rparr>
      else if hasCreds st
      then \<lparr> type = ''file'', reason = ''credentials_file_found'',
             creds = Some (savedCreds st),
             serverUrl = js_get (savedCreds st) ''serverUrl'' \<rparr>
      else \<lparr> type = ''manual'', reason = ''no_auto_auth_available'', creds = None,
             serverUrl = js_get_opt BUILD_CONFIG ''domain'' \<rparr>)"

section \<open>DeepLinkRouter (2.0.1-beta/src/main.js)\<close>

text \<open>
  The module-level state of the deep-link listener: the cached URL (\<open>None\<close> is
  \<open>null\<close>) and the queue of resolvers. A waiter is named by the number of its
  registration. \<open>resolved\<close> records, in order, each waiter that got its answer and the
  answer (\<open>None\<close> is the \<open>null\<close> of a timeout); \<open>sent\<close> records the
  \<open>deeplink-received\<close> messages sent to the main window, when there is one.
\<close>

record router =
  deepLinkUrl :: "string option"
  deeplinkResolvers :: "nat list"
  resolved :: "(nat \<times> string option) list"
  nextWaiter :: nat
  mainWindow :: bool
  sent :: "string list"

definition initialRouter :: router where
  "initialRouter =
     \<lparr> deepLinkUrl = None, deeplinkResolvers = [], resolved = [], nextWaiter = 0,
       mainWindow = False, sent = [] \<rparr>"

text \<open>
  \<^verbatim>\<open>
  while (deeplinkResolvers.length > 0) {
    const resolve = deeplinkResolvers.shift();
    try { resolve(url); } catch (e) { }
  }
  \<close>
\<close>

function drainResolvers :: "string \<Rightarrow> router \<Rightarrow> router" where
  "drainResolvers url r =
     (case deeplinkResolvers r of
        [] \<Rightarrow> r
      | w # ws \<Rightarrow>
          drainResolvers url
            (r\<lparr> deeplinkResolvers := ws, resolved := resolved r @ [(w, Some url)] \<rparr>))"
  by pat_completeness auto
termination
  by (relation "measure (\<lambda>(url, r). length (deeplinkResolvers r))") auto

declare drainResolvers.simps [simp del]

text \<open>
  \<^verbatim>\<open>
  function notifyDeepLink(url) {
    deepLinkUrl = url;
    if (mainWindow && mainWindow.webContents) {
      try { mainWindow.webContents.send('deeplink-received', url); } catch (e) { }
    }
    while (deeplinkResolvers.length > 0) { ... }
  }
  \<close>
\<close>

definition notifyDeepLink :: "string \<Rightarrow> router \<Rightarrow> router" where
  "notifyDeepLink url r =
     drainResolvers url
       (r\<lparr> deepLinkUrl := Some url,
           sent := (if mainWindow r then sent r @ [url] else sent r) \<rparr>)"

text \<open>
  The \<open>oauth-wait-code\<close> handler, up to the registration of its resolver:
  \<^verbatim>\<open>
  if (deepLinkUrl) {
    const url = deepLinkUrl;
    deepLinkUrl = null;
    return url;
  }
  return new Promise((resolve) => {
    const timer = setTimeout(() => { ... }, timeoutMs);
    const resolver = (url) => { clearTimeout(timer); resolve(url); };
    deeplinkResolvers.push(resolver);
  });
  \<close>
  The empty string is falsy, so a cached empty URL is not returned.
\<close>

definition cachedUrl :: "router \<Rightarrow> string option" where
  "cachedUrl r = (case deepLinkUrl r of None \<Rightarrow> None | Some url \<Rightarrow> if url = [] then None else Some url)"

definition oauthWaitCode :: "router \<Rightarrow> router" where
  "oauthWaitCode r =
     (let w = nextWaiter r; r' = r\<lparr> nextWaiter := Suc w \<rparr> in
      case cachedUrl r of
        Some url \<Rightarrow> r'\<lparr> deepLinkUrl := None, resolved := resolved r @ [(w, Some url)] \<rparr>
      | None \<Rightarrow> r'\<lparr> deeplinkResolvers := deeplinkResolvers r @ [w] \<rparr>)"

text \<open>
  The timer of waiter \<open>w\<close>:
  \<^verbatim>\<open>
  const idx = deeplinkResolvers.indexOf(resolver);
  if (idx !== -1) deeplinkResolvers.splice(idx, 1);
  resolve(null);
  \<close>
  The resolver clears the timer when it runs, so the timer fires only for a waiter that
  is still in the queue.
\<close>

definition waitTimeout :: "nat \<Rightarrow> router \<Rightarrow> router" where
  "waitTimeout w r =
     (if w \<in> set (deeplinkResolvers r)
      then r\<lparr> deeplinkResolvers := remove1 w (deeplinkResolvers r),
              resolved := resolved r @ [(w, None)] \<rparr>
      else r)"

section \<open>PKCEChallengeGenerator (openLoginWebView, in authentication/login.service.js)\<close>

text \<open>\<^verbatim>\<open>s.charAt(i)\<close>: the empty string when \<open>i\<close> is out of range.\<close>

definition charAt :: "string \<Rightarrow> int \<Rightarrow> string" where
  "charAt s i = (if 0 \<le> i \<and> i < int (length s) then [s ! nat i] else [])"

definition chars :: string where
  "chars = ''ABCDEFGHIJKLMNOPQRSTUVWXYZabcdefghijklmnopqrstuvwxyz0123456789-._~''"

text \<open>
  \<^verbatim>\<open>
  function generateRandomString(length) {
    const chars = '...'
    let result = ''
    for (let i = 0; i < length; i++) {
      result += chars.charAt(Math.floor(Math.random() * chars.length))
    }
    return result
  }
  \<close>
  \<open>random i\<close> is what the \<open>i\<close>-th call of \<^verbatim>\<open>Math.random()\<close> returns, a real number
  in place of the floating-point one.
\<close>

function generateLoop :: "(nat \<Rightarrow> real) \<Rightarrow> nat \<Rightarrow> nat \<Rightarrow> string \<Rightarrow> string" where
  "generateLoop random len i result =
     (if i < len
      then generateLoop random len (i + 1)
             (result @ charAt chars \<lfloor>random i * real (length chars)\<rfloor>)
      else result)"
  by pat_completeness auto
termination
  by (relation "measure (\<lambda>(random, len, i, result). len - i)") auto

declare generateLoop.simps [simp del]

definition generateRandomString :: "(nat \<Rightarrow> real) \<Rightarrow> nat \<Rightarrow> string" where
  "generateRandomString random len = generateLoop random len 0 []"

record pkce =
  codeVerifier :: string
  codeChallenge :: string
  oauthState :: string

text \<open>
  \<^verbatim>\<open>
  const codeVerifier = generateRandomString(128)
  const codeChallenge = crypto.createHash('sha256').update(codeVerifier).digest('base64')
    .replace(/\+/g, '-').replace(/\//g, '_').replace(/=/g, '')
  const state = generateRandomString(32)
  \<close>
  \<open>sha256Base64 v\<close> stands for
  \<^verbatim>\<open>crypto.createHash('sha256').update(v).digest('base64')\<close>, the platform's hash. The
  first 128 calls of \<^verbatim>\<open>Math.random()\<close> make the verifier and the next 32 the state
  (the variable \<open>state\<close> of the source is the field \<open>oauthState\<close>).
\<close>

definition generatePKCE :: "(nat \<Rightarrow> real) \<Rightarrow> (string \<Rightarrow> string) \<Rightarrow> pkce" where
  "generatePKCE random sha256Base64 =
     (let verifier = generateRandomString random 128 in
      \<lparr> codeVerifier = verifier,
        codeChallenge =
          filter (\<lambda>c. c \<noteq> CHR ''='')
            (replaceAll CHR ''/'' CHR ''_'' (replaceAll CHR ''+'' CHR ''-'' (sha256Base64 verifier))),
        oauthState = generateRandomString (\<lambda>i. random (128 + i)) 32 \<rparr>)"

section \<open>LoginFlowOrchestrator (openLoginWebView, in authentication/login.service.js)\<close>

text \<open>
  \<^verbatim>\<open>openLoginWebView\<close> returns a promise and registers handlers on the login window.
  What the promise is resolved with:
  the credentials parsed from a callback URL, the credentials built from a token response
  \<^verbatim>\<open>{ server: serverUrl, user: tokenData.user_id || 'oauth_user',
     password: tokenData.access_token, tokenData: tokenData }\<close>,
  or \<^verbatim>\<open>new Error(message)\<close>.
\<close>

record oauth_credentials =
  oauthServer :: string
  oauthUser :: "json option"
  oauthPassword :: "json option"
  tokenData :: json

datatype outcome =
    Credentials credentials
  | OAuthCredentials oauth_credentials
  | Error string

text \<open>The arguments and constants of one call: the URL parser, \<open>serverUrl\<close>, the PKCE
  \<open>state\<close> and \<open>authStrategy\<close> (\<open>None\<close> is \<open>null\<close>).\<close>

record session =
  sessionTail :: url_tail
  sessionServerUrl :: string
  sessionState :: string
  authStrategy :: "strategy option"

text \<open>The variables of the closure, the promise (\<open>resolution\<close>: what it was resolved
  with, \<open>None\<close> while it is pending), whether the window is closing
  (\<^verbatim>\<open>window.close()\<close> was called or its \<open>close\<close> event was emitted) and whether
  \<^verbatim>\<open>clearTimeout(grantTimeout)\<close> has run.\<close>

record orchestrator =
  codeExchanged :: bool
  oauthApprovalAttempted :: bool
  loginMethodSelected :: bool
  loginFormFilled :: bool
  grantPageHandled :: bool
  formFillAttempts :: nat
  resolution :: "outcome option"
  closing :: bool
  grantTimeoutCleared :: bool

definition initialOrchestrator :: orchestrator where
  "initialOrchestrator =
     \<lparr> codeExchanged = False, oauthApprovalAttempted = False, loginMethodSelected = False,
       loginFormFilled = False, grantPageHandled = False, formFillAttempts = 0,
       resolution = None, closing = False, grantTimeoutCleared = False \<rparr>"

definition MAX_FORM_FILL_ATTEMPTS :: nat where
  "MAX_FORM_FILL_ATTEMPTS = 3"

text \<open>\<^verbatim>\<open>resolve(v)\<close>, the resolving function of the promise: its first call settles the
  promise and every later call does nothing.\<close>

definition resolve :: "outcome \<Rightarrow> orchestrator \<Rightarrow> orchestrator" where
  "resolve v st = (case resolution st of None \<Rightarrow> st\<lparr> resolution := Some v \<rparr> | Some w \<Rightarrow> st)"

text \<open>\<^verbatim>\<open>window.close()\<close>.\<close>

definition windowClose :: "orchestrator \<Rightarrow> orchestrator" where
  "windowClose st = st\<lparr> closing := True \<rparr>"

text \<open>\<^verbatim>\<open>s.includes(sub)\<close>.\<close>

fun js_includes :: "string \<Rightarrow> string \<Rightarrow> bool" where
  "js_includes [] sub = (sub = [])"
| "js_includes (x # xs) sub = (startsWith (x # xs) sub \<or> js_includes xs sub)"

text \<open>
  \<^verbatim>\<open>
  function isFinalGrantPage(url) {
    const isGrant = url.includes('/login/flow/grant');
    const isSelectionPage = url.includes('selectUserBackEnd');
    const isLoginPage = url.includes('/login?');
    return isGrant && !isSelectionPage && !isLoginPage;
  }
  \<close>
\<close>

definition isFinalGrantPage :: "string \<Rightarrow> bool" where
  "isFinalGrantPage url =
     (js_includes url ''/login/flow/grant'' \<and> \<not> js_includes url ''selectUserBackEnd''
      \<and> \<not> js_includes url ''/login?'')"

text \<open>What the script injected by \<^verbatim>\<open>handleGrantPageCompletionFallback\<close> reports:
  \<^verbatim>\<open>executeJavaScript\<close> rejects, the script returns \<^verbatim>\<open>{ error }\<close>, or it returns the
  user name it found and the two indicators.\<close>

record user_info =
  userName :: string
  hasSuccessIndicator :: bool
  hasUserElement :: bool

datatype page_probe = ProbeThrew | ProbeError | ProbeInfo user_info

text \<open>
  \<^verbatim>\<open>handleGrantPageCompletionFallback(webContents, serverUrl, state)\<close>, lines 864 to 937;
  \<open>now\<close> is \<^verbatim>\<open>Date.now()\<close> and \<open>currentUrl\<close> is \<^verbatim>\<open>webContents.getURL()\<close>. The result
  is the credentials of \<^verbatim>\<open>{ success: true, credentials }\<close>, and \<open>None\<close> for
  \<^verbatim>\<open>{ success: false }\<close>, which is also what the \<^verbatim>\<open>catch\<close> returns when
  \<^verbatim>\<open>parseLoginRedirectUrl\<close> throws.
\<close>

definition simulatedCallback :: "session \<Rightarrow> string \<Rightarrow> string \<Rightarrow> codec_error + credentials" where
  "simulatedCallback ses usr pwd =
     parseLoginRedirectUrl (sessionTail ses)
       (''nc://login/server:'' @ encodeURIComponent (sessionServerUrl ses)
          @ ''&user:'' @ usr @ ''&password:'' @ pwd @ ''&state:'' @ sessionState ses)"

definition handleGrantPageCompletionFallback ::
    "session \<Rightarrow> page_probe \<Rightarrow> string \<Rightarrow> nat \<Rightarrow> credentials option" where
  "handleGrantPageCompletionFallback ses probe currentUrl now =
     (case probe of
        ProbeThrew \<Rightarrow> None
      | ProbeInfo info \<Rightarrow>
          if hasSuccessIndicator info \<or> hasUserElement info
          then (case simulatedCallback ses (encodeURIComponent (userName info))
                       (''fallback_token_'' @ showNat now) of
                  Inl e \<Rightarrow> None
                | Inr c \<Rightarrow> Some c)
          else if currentUrl = sessionServerUrl ses \<or> currentUrl = sessionServerUrl ses @ ''/''
          then (case simulatedCallback ses ''nextcloud_user'' (''main_page_token_'' @ showNat now) of
                  Inl e \<Rightarrow> None
                | Inr c \<Rightarrow> Some c)
          else None
      | ProbeError \<Rightarrow>
          if currentUrl = sessionServerUrl ses \<or> currentUrl = sessionServerUrl ses @ ''/''
          then (case simulatedCallback ses ''nextcloud_user'' (''main_page_token_'' @ showNat now) of
                  Inl e \<Rightarrow> None
                | Inr c \<Rightarrow> Some c)
          else None)"

text \<open>
  The tasks of the event loop that read or write the state above. A handler that awaits
  is split at the await: the part before it is the event itself, the part after it is a
  task of its own, carrying what the awaited call returned.
  \<^item> \<open>DidFinishLoad url\<close>, \<open>DidNavigate url\<close>, \<open>WillRedirect url\<close>, \<open>WillNavigate url\<close>:
    the handlers of the web contents' events of these names;
  \<^item> \<open>FormFillResult success\<close>: the rest of the \<open>did-finish-load\<close> handler after
    \<^verbatim>\<open>await tryAutoFillLoginForm(...)\<close>;
  \<^item> \<open>FallbackResult probe currentUrl now\<close>: any of the places that run
    \<^verbatim>\<open>const fallbackResult = await handleGrantPageCompletionFallback(...)\<close> followed by
    \<^verbatim>\<open>if (fallbackResult.success) { resolve(fallbackResult.credentials); window.close() }\<close>;
  \<^item> \<open>ExchangeResult tokenData\<close>: the rest of \<open>will-redirect\<close> after
    \<^verbatim>\<open>await exchangeAuthorizationCode(...)\<close>, and the \<^verbatim>\<open>.then\<close> of \<open>will-navigate\<close>
    (\<open>JNull\<close> is the \<open>null\<close> of a failed exchange);
  \<^item> \<open>ExchangeRejected message\<close>: the \<^verbatim>\<open>.catch\<close> of \<open>will-navigate\<close>;
  \<^item> \<open>GrantTimeout url\<close>: the 20 second timer \<open>grantTimeout\<close>;
  \<^item> \<open>Close\<close>: the handler of the window's \<open>close\<close> event, emitted when the user closes
    the window and when \<^verbatim>\<open>window.close()\<close> does.
  A task that continues an awaited call runs only if the call was made: the exchange is
  started right after \<open>codeExchanged = true\<close>, every call of the fallback follows
  \<open>grantPageHandled = true\<close>, and a form fill follows \<open>formFillAttempts++\<close>. Beyond that
  the order and number of tasks is left open, so a theorem about all lists of tasks covers
  every schedule of the event loop.
\<close>

datatype event =
    DidFinishLoad string
  | FormFillResult bool
  | DidNavigate string
  | FallbackResult page_probe string nat
  | WillRedirect string
  | WillNavigate string
  | ExchangeResult json
  | ExchangeRejected string
  | GrantTimeout string
  | Close

definition strategyIsFile :: "session \<Rightarrow> bool" where
  "strategyIsFile ses = (case authStrategy ses of None \<Rightarrow> False | Some a \<Rightarrow> type a = ''file'')"

definition didFinishLoad :: "session \<Rightarrow> string \<Rightarrow> orchestrator \<Rightarrow> orchestrator" where
  "didFinishLoad ses currentUrl st =
     (if (js_includes currentUrl ''/login/flow'' \<and> js_includes currentUrl ''clientIdentifier='')
         \<and> \<not> oauthApprovalAttempted st
      then st\<lparr> oauthApprovalAttempted := True \<rparr>
      else if js_includes currentUrl ''/apps/user_saml/saml/selectUserBackEnd''
              \<and> \<not> loginMethodSelected st
      then st\<lparr> loginMethodSelected := True \<rparr>
      else if (js_includes currentUrl ''/login'' \<and> js_includes currentUrl ''direct=1''
               \<and> \<not> js_includes currentUrl ''selectUserBackEnd''
               \<and> \<not> js_includes currentUrl ''/login/flow'')
              \<and> strategyIsFile ses \<and> formFillAttempts st < MAX_FORM_FILL_ATTEMPTS
      then st\<lparr> formFillAttempts := formFillAttempts st + 1 \<rparr>
      else if isFinalGrantPage currentUrl \<and> \<not> grantPageHandled st
      then st\<lparr> grantPageHandled := True \<rparr>
      else if (currentUrl = sessionServerUrl ses \<or> currentUrl = sessionServerUrl ses @ ''/'')
              \<and> grantPageHandled st \<and> \<not> codeExchanged st
      then st
      else st)"

definition oauthCredentials :: "session \<Rightarrow> json \<Rightarrow> oauth_credentials" where
  "oauthCredentials ses tok =
     \<lparr> oauthServer = sessionServerUrl ses,
       oauthUser = js_or (js_get tok ''user_id'') (Some (JStr ''oauth_user'')),
       oauthPassword = js_get tok ''access_token'',
       tokenData = tok \<rparr>"

text \<open>\<^verbatim>\<open>oauthParams.code && oauthParams.state === state\<close>.\<close>

definition carriesCode :: "session \<Rightarrow> string \<Rightarrow> bool" where
  "carriesCode ses url =
     (case extractOAuthParams (sessionTail ses) url of
        (oauthCode, oauthSt) \<Rightarrow> oauthCode \<noteq> None \<and> oauthSt = Some (sessionState ses))"

definition willRedirect :: "session \<Rightarrow> string \<Rightarrow> orchestrator \<Rightarrow> orchestrator" where
  "willRedirect ses url st =
     (if startsWith url ''nc://login''
      then (case parseLoginRedirectUrl (sessionTail ses) url of
              Inl e \<Rightarrow>
                windowClose (resolve (Error (''OAuth authorization failed: '' @ error_message e)) st)
            | Inr c \<Rightarrow>
                if carriesCode ses url
                then (if \<not> codeExchanged st then st\<lparr> codeExchanged := True \<rparr> else st)
                else windowClose (resolve (Credentials c) st))
      else st)"

definition willNavigate :: "session \<Rightarrow> string \<Rightarrow> orchestrator \<Rightarrow> orchestrator" where
  "willNavigate ses navigationUrl st =
     (if startsWith navigationUrl ''nc://login''
      then (case parseLoginRedirectUrl (sessionTail ses) navigationUrl of
              Inl e \<Rightarrow>
                windowClose (resolve (Error (''OAuth callback failed: '' @ error_message e)) st)
            | Inr c \<Rightarrow>
                if carriesCode ses navigationUrl \<and> \<not> codeExchanged st
                then st\<lparr> codeExchanged := True \<rparr>
                else windowClose (resolve (Credentials c) st))
      else st)"

fun step :: "session \<Rightarrow> event \<Rightarrow> orchestrator \<Rightarrow> orchestrator" where
  "step ses (DidFinishLoad currentUrl) st = didFinishLoad ses currentUrl st"
| "step ses (FormFillResult success) st =
     (if 0 < formFillAttempts st \<and> success then st\<lparr> loginFormFilled := True \<rparr> else st)"
| "step ses (DidNavigate url) st =
     (if isFinalGrantPage url \<and> \<not> grantPageHandled st
      then st\<lparr> grantPageHandled := True \<rparr> else st)"
| "step ses (FallbackResult probe currentUrl now) st =
     (if grantPageHandled st
      then (case handleGrantPageCompletionFallback ses probe currentUrl now of
              Some c \<Rightarrow> windowClose (resolve (Credentials c) st)
            | None \<Rightarrow> st)
      else st)"
| "step ses (WillRedirect url) st = willRedirect ses url st"
| "step ses (WillNavigate url) st = willNavigate ses url st"
| "step ses (ExchangeResult tok) st =
     (if codeExchanged st
      then (if truthy tok
            then windowClose (resolve (OAuthCredentials (oauthCredentials ses tok)) st)
            else windowClose
                   (resolve (Error ''Failed to exchange authorization code for token'') st))
      else st)"
| "step ses (ExchangeRejected message) st =
     (if codeExchanged st
      then windowClose (resolve (Error (''OAuth token exchange failed: '' @ message)) st)
      else st)"
| "step ses (GrantTimeout currentUrl) st =
     (if grantTimeoutCleared st then st
      else if isFinalGrantPage currentUrl \<and> \<not> grantPageHandled st \<and> \<not> codeExchanged st
      then st\<lparr> grantPageHandled := True \<rparr>
      else st)"
| "step ses Close st =
     (let st' = st\<lparr> grantTimeoutCleared := True, closing := True \<rparr> in
      if \<not> codeExchanged st' then resolve (Error ''OAuth authorization was cancelled'') st'
      else st')"

text \<open>The tasks of a list, run in order.\<close>

fun run :: "session \<Rightarrow> event list \<Rightarrow> orchestrator \<Rightarrow> orchestrator" where
  "run ses [] st = st"
| "run ses (e # es) st = run ses es (step ses e st)"

section \<open>The IPC handler that opens the login window (2.0.1-beta/src/main.js)\<close>

text \<open>
  The user interface starts a login attempt by invoking
  \<open>authentication:openLoginWebView\<close>, and what the handler's promise is resolved with
  is what the user interface receives:
  \<^verbatim>\<open>
  return new Promise(async (resolve) => {
    const loginPromise = openLoginWebView(mainWindow, serverUrl, oauthState.currentStrategy);
    const timeout = setTimeout(() => {
      loginPromise.then(resolve).catch(resolve);
    }, 45000);
    try {
      const deepLinkUrl = await new Promise((deepLinkResolve) => {
        const deepLinkTimer = setTimeout(() => { deepLinkResolve(null); }, 40000);
        const resolver = (url) => { clearTimeout(deepLinkTimer); deepLinkResolve(url); };
        deeplinkResolvers.push(resolver);
      });
      if (deepLinkUrl) {
        clearTimeout(timeout);
        try {
          const credentials = parseLoginRedirectUrl(deepLinkUrl);
          ...
          resolve(credentials);
          return;
        } catch (error) {
          resolve(new Error(`Deep link parsing failed: ${error.message}`));
          return;
        }
      }
    } catch (error) { ... }
    clearTimeout(timeout);
    loginPromise.then(resolve).catch(resolve);
  });
  \<close>
  The state of one call: the login window with its promise \<open>loginPromise\<close> (the
  orchestrator above), whether the promise awaited for the deep link is pending, whether
  the timer \<open>timeout\<close> is armed, whether \<^verbatim>\<open>loginPromise.then(resolve)\<close> has been
  attached, and what the handler's promise was resolved with.
\<close>

record ipc_call =
  loginWindow :: orchestrator
  deepLinkPending :: bool
  timeoutArmed :: bool
  forwarding :: bool
  reply :: "outcome option"

definition initialIpcCall :: ipc_call where
  "initialIpcCall =
     \<lparr> loginWindow = initialOrchestrator, deepLinkPending = True, timeoutArmed = True,
       forwarding = False, reply = None \<rparr>"

text \<open>\<^verbatim>\<open>resolve(v)\<close> of the handler's promise: only its first call settles the promise.\<close>

definition ipcResolve :: "outcome \<Rightarrow> ipc_call \<Rightarrow> ipc_call" where
  "ipcResolve v c = (case reply c of None \<Rightarrow> c\<lparr> reply := Some v \<rparr> | Some w \<Rightarrow> c)"

text \<open>\<^verbatim>\<open>loginPromise.then(resolve)\<close>, once attached, passes on what the login window's
  promise is resolved with.\<close>

definition forward :: "ipc_call \<Rightarrow> ipc_call" where
  "forward c =
     (if forwarding c
      then (case resolution (loginWindow c) of None \<Rightarrow> c | Some v \<Rightarrow> ipcResolve v c)
      else c)"

text \<open>
  The tasks of one call: a task of the login window, the resolver run by
  \<open>notifyDeepLink\<close> with the URL of a deep link, the 40 second timer \<open>deepLinkTimer\<close>, and
  the 45 second timer \<open>timeout\<close>. The resolver stays in the queue after the timer has
  fired, but then it resolves a promise that is already settled.
\<close>

datatype ipc_event =
    LoginWindow event
  | DeepLink string
  | DeepLinkTimer
  | Timeout

fun ipcStep :: "session \<Rightarrow> ipc_event \<Rightarrow> ipc_call \<Rightarrow> ipc_call" where
  "ipcStep ses (LoginWindow e) c = forward (c\<lparr> loginWindow := step ses e (loginWindow c) \<rparr>)"
| "ipcStep ses (DeepLink url) c =
     (if deepLinkPending c
      then (if url \<noteq> []
            then (case parseLoginRedirectUrl (sessionTail ses) url of
                    Inr credentials \<Rightarrow>
                      ipcResolve (Credentials credentials)
                        (c\<lparr> deepLinkPending := False, timeoutArmed := False \<rparr>)
                  | Inl error \<Rightarrow>
                      ipcResolve (Error (''Deep link parsing failed: '' @ error_message error))
                        (c\<lparr> deepLinkPending := False, timeoutArmed := False \<rparr>))
            else forward (c\<lparr> deepLinkPending := False, timeoutArmed := False, forwarding := True \<rparr>))
      else c)"
| "ipcStep ses DeepLinkTimer c =
     (if deepLinkPending c
      then forward (c\<lparr> deepLinkPending := False, timeoutArmed := False, forwarding := True \<rparr>)
      else c)"
| "ipcStep ses Timeout c =
     (if timeoutArmed c
      then forward (c\<lparr> timeoutArmed := False, forwarding := True \<rparr>)
      else c)"

fun ipcRun :: "session \<Rightarrow> ipc_event list \<Rightarrow> ipc_call \<Rightarrow> ipc_call" where
  "ipcRun ses [] c = c"
| "ipcRun ses (e # es) c = ipcRun ses es (ipcStep ses e c)"

text \<open>A session to run the model on: the permissive URL parser, a server, a PKCE state
  and no strategy.\<close>

definition exampleSession :: session where
  "exampleSession =
     \<lparr> sessionTail = anyTail, sessionServerUrl = ''https://cloud.example.com'',
       sessionState = ''st4te'', authStrategy = None \<rparr>"

section \<open>Properties of the credential store and the strategy resolver\<close>

lemma truthy_fixCredentialsFormat: "truthy (fixCredentialsFormat v) = truthy v"
  by (auto simp: fixCredentialsFormat_def js_or_def split: option.splits)

text \<open>
  Claim C10. The migration is idempotent: for every value \<open>x\<close> read from the file,
  \<open>fixCredentialsFormat (fixCredentialsFormat x) = fixCredentialsFormat x\<close>. Either the
  first application returns \<open>x\<close> itself, or it returns a migrated record, whose
  \<open>credentials\<close> object has the members \<open>username\<close> and \<open>password\<close> and no \<open>server\<close>, so
  that the second application leaves it alone.
\<close>

theorem fixCredentialsFormat_idempotent:
  "fixCredentialsFormat (fixCredentialsFormat x) = fixCredentialsFormat x"
proof (cases "fixCredentialsFormat x = x")
  case True
  then show ?thesis by simp
next
  case False
  then obtain s u p where migrated: "fixCredentialsFormat x =
      JObj [(''serverUrl'', s), (''credentials'', JObj [(''username'', u), (''password'', p)])]"
    by (auto simp: fixCredentialsFormat_def split: option.splits if_splits)
  show ?thesis
    unfolding migrated by (simp add: fixCredentialsFormat_def)
qed

text \<open>
  Claim C9, as the code has it. Let the value \<open>x\<close> in the file have a \<open>credentials\<close>
  member \<open>cr\<close>.
  \<^item> Old format: \<open>cr\<close> holds \<open>server\<close>, \<open>user\<close> and \<open>password\<close>, with values \<open>s\<close>, \<open>u\<close>,
    \<open>p\<close> that are all truthy (for strings: not empty), and \<open>x\<close> has no truthy
    \<open>serverUrl\<close> of its own. Then \<open>readSaved\<close> returns the migrated record
    \<open>{serverUrl: s, credentials: {username: u, password: p}}\<close>.
  \<^item> Current shape: \<open>cr\<close> holds \<open>username\<close> and \<open>password\<close> and has no \<open>server\<close> member.
    Then \<open>readSaved\<close> returns \<open>x\<close> unchanged.
\<close>

theorem readSaved_migrates_old_format:
  "js_get x ''credentials'' = Some cr \<Longrightarrow>
     (js_get cr ''server'' = Some s \<and> js_get cr ''user'' = Some u \<and> js_get cr ''password'' = Some p
        \<and> truthy s \<and> truthy u \<and> truthy p \<and> \<not> truthy_opt (js_get x ''serverUrl'')
      \<longrightarrow> readSaved (Holds x) =
            JObj [(''serverUrl'', s), (''credentials'', JObj [(''username'', u), (''password'', p)])])
     \<and> (js_get cr ''server'' = None \<longrightarrow> readSaved (Holds x) = x)"
  by (cases x; cases cr) (auto simp: fixCredentialsFormat_def js_or_def)

text \<open>The theorem of claim C9 at an old-format file and at a current-shape file.\<close>

theorem readSaved_migrates_old_format_witness:
  "readSaved (Holds (JObj [(''credentials'',
       JObj [(''server'', JStr ''https://cloud.example.com''), (''user'', JStr ''alice''),
             (''password'', JStr ''secret'')])]))
     = JObj [(''serverUrl'', JStr ''https://cloud.example.com''),
             (''credentials'', JObj [(''username'', JStr ''alice''), (''password'', JStr ''secret'')])]
   \<and> readSaved (Holds (JObj [(''serverUrl'', JStr ''https://cloud.example.com''),
       (''credentials'', JObj [(''username'', JStr ''alice''), (''password'', JStr ''secret'')]),
       (''timestamp'', JNum 1700000000000)]))
     = JObj [(''serverUrl'', JStr ''https://cloud.example.com''),
       (''credentials'', JObj [(''username'', JStr ''alice''), (''password'', JStr ''secret'')]),
       (''timestamp'', JNum 1700000000000)]"
  using
    readSaved_migrates_old_format
      [of "JObj [(''credentials'',
             JObj [(''server'', JStr ''https://cloud.example.com''), (''user'', JStr ''alice''),
                   (''password'', JStr ''secret'')])]"
          "JObj [(''server'', JStr ''https://cloud.example.com''), (''user'', JStr ''alice''),
                 (''password'', JStr ''secret'')]"
          "JStr ''https://cloud.example.com''" "JStr ''alice''" "JStr ''secret''"]
    readSaved_migrates_old_format
      [of "JObj [(''serverUrl'', JStr ''https://cloud.example.com''),
             (''credentials'', JObj [(''username'', JStr ''alice''), (''password'', JStr ''secret'')]),
             (''timestamp'', JNum 1700000000000)]"
          "JObj [(''username'', JStr ''alice''), (''password'', JStr ''secret'')]"]
  by simp

text \<open>
  Claim C9 as stated fails: the old format is recognised by the truthiness of the three
  values, so an old-format file whose password is the empty string is returned as it
  is, not migrated.
\<close>

theorem readSaved_keeps_old_format_with_empty_password:
  "readSaved (Holds (JObj [(''credentials'',
       JObj [(''server'', JStr ''https://cloud.example.com''), (''user'', JStr ''alice''),
             (''password'', JStr [])])]))
     = JObj [(''credentials'',
       JObj [(''server'', JStr ''https://cloud.example.com''), (''user'', JStr ''alice''),
             (''password'', JStr [])])]
   \<and> readSaved (Holds (JObj [(''credentials'',
       JObj [(''server'', JStr ''https://cloud.example.com''), (''user'', JStr ''alice''),
             (''password'', JStr [])])]))
     \<noteq> JObj [(''serverUrl'', JStr ''https://cloud.example.com''),
             (''credentials'', JObj [(''username'', JStr ''alice''), (''password'', JStr [])])]"
  by (simp add: fixCredentialsFormat_def)

text \<open>
  Claim C3, as the code has it. The order of the decision is as claimed, but the resolver
  does not validate the saved record: when the host is not joined to the domain it
  returns the \<open>file\<close> strategy exactly when the credential file exists and holds a truthy
  JSON value, and that strategy carries the value as \<open>readSaved\<close> returns it. Joined to
  the domain it returns \<open>saml\<close> whatever the file holds, and in every other case
  \<open>manual\<close>.
\<close>

theorem determineAuthStrategy_precedence:
  "type (determineAuthStrategy onDomain file cfg) =
     (if onDomain then ''saml''
      else case file of Holds v \<Rightarrow> if truthy v then ''file'' else ''manual'' | _ \<Rightarrow> ''manual'')
   \<and> creds (determineAuthStrategy onDomain file cfg) =
     (if onDomain then None
      else case file of
             Holds v \<Rightarrow> if truthy v then Some (fixCredentialsFormat v) else None
           | _ \<Rightarrow> None)"
  by (cases "file")
     (simp_all add: determineAuthStrategy_def detectAuthState_def Let_def or_null_def
        truthy_fixCredentialsFormat)

text \<open>
  Claim C3 as stated fails: with the host not joined to the domain and a credential file
  holding the empty object \<open>{}\<close>, the resolver returns the \<open>file\<close> strategy although the
  record does not pass \<open>validateCredentials\<close> (it has no \<open>serverUrl\<close>).
\<close>

theorem determineAuthStrategy_skips_validation:
  "type (determineAuthStrategy False (Holds (JObj [])) None) = ''file''
   \<and> \<not> validateCredentials anyTail (readSaved (Holds (JObj [])))"
  by (simp add: determineAuthStrategy_def detectAuthState_def Let_def or_null_def
        fixCredentialsFormat_def validateCredentials_def)

section \<open>Properties of the deep-link router\<close>

lemma drainResolvers_eq:
  "drainResolvers url r =
     r\<lparr> deeplinkResolvers := [],
        resolved := resolved r @ map (\<lambda>w. (w, Some url)) (deeplinkResolvers r) \<rparr>"
proof (induction url r rule: drainResolvers.induct)
  case (1 url r)
  show ?case
  proof (cases "deeplinkResolvers r")
    case Nil
    then show ?thesis by (subst drainResolvers.simps) simp
  next
    case (Cons w ws)
    then show ?thesis
      by (subst drainResolvers.simps) (simp add: "1.IH")
  qed
qed

text \<open>
  Claim C4, as the code has it. A deep link (a non-empty URL) that arrives while no
  waiter is registered answers nobody and is cached; the next \<open>oauth-wait-code\<close> call is
  answered with it at once, without being queued, and takes it out of the cache. A deep
  link that arrives while waiters are registered answers every one of them with the URL,
  in the order of their registration, and leaves the queue empty.
\<close>

theorem notifyDeepLink_delivery:
  "(url \<noteq> [] \<and> deeplinkResolvers r = [] \<longrightarrow>
      deepLinkUrl (notifyDeepLink url r) = Some url
      \<and> resolved (notifyDeepLink url r) = resolved r
      \<and> resolved (oauthWaitCode (notifyDeepLink url r)) = resolved r @ [(nextWaiter r, Some url)]
      \<and> deeplinkResolvers (oauthWaitCode (notifyDeepLink url r)) = []
      \<and> deepLinkUrl (oauthWaitCode (notifyDeepLink url r)) = None)
   \<and> resolved (notifyDeepLink url r) =
       resolved r @ map (\<lambda>w. (w, Some url)) (deeplinkResolvers r)
   \<and> deeplinkResolvers (notifyDeepLink url r) = []"
  by (simp add: notifyDeepLink_def drainResolvers_eq oauthWaitCode_def cachedUrl_def Let_def)

text \<open>The theorem of claim C4 at the initial state of the router: a deep link arrives
  before any waiter, and the first waiter (number 0) gets it.\<close>

theorem notifyDeepLink_delivery_witness:
  "''nc://login/x'' \<noteq> [] \<and> deeplinkResolvers initialRouter = []
   \<and> resolved (oauthWaitCode (notifyDeepLink ''nc://login/x'' initialRouter))
       = [(0, Some ''nc://login/x'')]
   \<and> deepLinkUrl (oauthWaitCode (notifyDeepLink ''nc://login/x'' initialRouter)) = None"
  using notifyDeepLink_delivery [of "''nc://login/x''" initialRouter]
  by (simp add: initialRouter_def)

text \<open>
  Claim C4 as stated fails: with two waiters registered (numbers 0 and 1), one deep link
  answers both, and the second is not left waiting.
\<close>

theorem notifyDeepLink_answers_every_waiter:
  "deeplinkResolvers (oauthWaitCode (oauthWaitCode initialRouter)) = [0, 1]
   \<and> deeplinkResolvers
        (notifyDeepLink ''nc://login/x'' (oauthWaitCode (oauthWaitCode initialRouter))) = []
   \<and> resolved (notifyDeepLink ''nc://login/x'' (oauthWaitCode (oauthWaitCode initialRouter)))
       = [(0, Some ''nc://login/x''), (1, Some ''nc://login/x'')]"
  by (simp add: notifyDeepLink_def drainResolvers_eq oauthWaitCode_def cachedUrl_def Let_def
        initialRouter_def)

section \<open>Properties of the PKCE generator\<close>

lemma floor_index:
  assumes "0 \<le> (x::real)" "x < 1"
  shows "0 \<le> \<lfloor>x * real (length chars)\<rfloor> \<and> \<lfloor>x * real (length chars)\<rfloor> < int (length chars)"
proof -
  have "x * real (length chars) < real (length chars)"
    using assms by (simp add: chars_def)
  then have "\<lfloor>x * real (length chars)\<rfloor> < int (length chars)"
    by (simp add: floor_less_iff)
  moreover have "0 \<le> \<lfloor>x * real (length chars)\<rfloor>"
    using assms by simp
  ultimately show ?thesis by simp
qed

lemma charAt_random:
  assumes "0 \<le> (x::real)" "x < 1"
  shows "\<exists>c \<in> set chars. charAt chars \<lfloor>x * real (length chars)\<rfloor> = [c]"
proof -
  let ?k = "\<lfloor>x * real (length chars)\<rfloor>"
  from floor_index[OF assms] have k: "0 \<le> ?k" "?k < int (length chars)" by simp_all
  then have "nat ?k < length chars" by linarith
  then have "chars ! nat ?k \<in> set chars" by (rule nth_mem)
  moreover have "charAt chars ?k = [chars ! nat ?k]" using k by (simp add: charAt_def)
  ultimately show ?thesis by blast
qed

text \<open>The loop adds one character of the alphabet in each round.\<close>

lemma generateLoop_props:
  assumes r: "\<forall>i. 0 \<le> random i \<and> random i < 1"
  shows "i \<le> len \<Longrightarrow>
         length (generateLoop random len i result) = length result + (len - i)
         \<and> set (generateLoop random len i result) \<subseteq> set result \<union> set chars"
  using r
proof (induction random len i result rule: generateLoop.induct)
  case (1 random len i result)
  show ?case
  proof (cases "i < len")
    case True
    from "1.prems" have "0 \<le> random i" "random i < 1" by simp_all
    from charAt_random[OF this]
    obtain c where c: "c \<in> set chars" "charAt chars \<lfloor>random i * real (length chars)\<rfloor> = [c]"
      by blast
    have "i + 1 \<le> len" using True by simp
    from "1.IH"[OF True this "1.prems"(2)] c True
    show ?thesis
      by (subst generateLoop.simps, subst (2) generateLoop.simps) auto
  next
    case False
    with "1.prems" show ?thesis
      by (subst generateLoop.simps, subst (2) generateLoop.simps) simp
  qed
qed

lemma replaceAll_removes: "c \<noteq> d \<Longrightarrow> c \<notin> set (replaceAll c d s)"
  by (auto simp: replaceAll_def)

lemma replaceAll_adds_only: "x \<notin> set s \<Longrightarrow> x \<noteq> d \<Longrightarrow> x \<notin> set (replaceAll c d s)"
  by (auto simp: replaceAll_def)

text \<open>
  Claim C7. Whatever \<^verbatim>\<open>Math.random()\<close> returns (numbers from 0 up to, not including, 1)
  and whatever the hash is, the generated verifier has exactly 128 characters, each of
  the alphabet \<open>[A-Za-z0-9-._~]\<close>; the challenge is the base64 SHA-256 digest of the
  verifier with \<open>+\<close> replaced by \<open>-\<close>, \<open>/\<close> replaced by \<open>_\<close> and every \<open>=\<close> removed; and
  so the challenge contains no \<open>=\<close>, \<open>+\<close> or \<open>/\<close>.
\<close>

theorem generatePKCE_verifier_and_challenge:
  assumes "\<forall>i. 0 \<le> random i \<and> random i < 1"
  shows "length (codeVerifier (generatePKCE random sha256Base64)) = 128
    \<and> set (codeVerifier (generatePKCE random sha256Base64))
        \<subseteq> set ''ABCDEFGHIJKLMNOPQRSTUVWXYZabcdefghijklmnopqrstuvwxyz0123456789-._~''
    \<and> codeChallenge (generatePKCE random sha256Base64) =
        filter (\<lambda>c. c \<noteq> CHR ''='')
          (replaceAll CHR ''/'' CHR ''_''
            (replaceAll CHR ''+'' CHR ''-''
              (sha256Base64 (codeVerifier (generatePKCE random sha256Base64)))))
    \<and> CHR ''='' \<notin> set (codeChallenge (generatePKCE random sha256Base64))
    \<and> CHR ''+'' \<notin> set (codeChallenge (generatePKCE random sha256Base64))
    \<and> CHR ''/'' \<notin> set (codeChallenge (generatePKCE random sha256Base64))"
proof -
  have g: "length (generateLoop random 128 0 []) = 128"
          "set (generateLoop random 128 0 []) \<subseteq> set chars"
    using generateLoop_props[OF assms, of 0 128 "[]"] by simp_all
  have plus: "CHR ''+'' \<notin> set (replaceAll CHR ''/'' CHR ''_'' (replaceAll CHR ''+'' CHR ''-'' s))" for s
    by (intro replaceAll_adds_only replaceAll_removes) simp_all
  have slash: "CHR ''/'' \<notin> set (replaceAll CHR ''/'' CHR ''_'' t)" for t
    by (rule replaceAll_removes) simp
  show ?thesis
    using g plus slash
    by (simp add: generatePKCE_def generateRandomString_def Let_def chars_def)
qed

text \<open>The theorem of claim C7 for a random source that always returns one half and a
  digest that holds all three characters to replace.\<close>

theorem generatePKCE_verifier_and_challenge_witness:
  "(\<forall>i::nat. (0::real) \<le> 1 / 2 \<and> (1 / 2 :: real) < 1)
   \<and> length (codeVerifier (generatePKCE (\<lambda>i. 1 / 2) (\<lambda>v. ''ab+/=''))) = 128
   \<and> CHR ''='' \<notin> set (codeChallenge (generatePKCE (\<lambda>i. 1 / 2) (\<lambda>v. ''ab+/='')))
   \<and> CHR ''+'' \<notin> set (codeChallenge (generatePKCE (\<lambda>i. 1 / 2) (\<lambda>v. ''ab+/='')))
   \<and> CHR ''/'' \<notin> set (codeChallenge (generatePKCE (\<lambda>i. 1 / 2) (\<lambda>v. ''ab+/='')))"
proof -
  have h: "\<forall>i::nat. (0::real) \<le> 1 / 2 \<and> (1 / 2 :: real) < 1" by simp
  from generatePKCE_verifier_and_challenge [of "\<lambda>i. 1 / 2" "\<lambda>v. ''ab+/=''", OF h] h
  show ?thesis by blast
qed

section \<open>Properties of the callback URL codec\<close>

text \<open>What a successful parse implies: the scheme and the path segment are right, the
  three required values are there, and the URL constructor accepted the server value with
  a protocol that starts with \<open>http\<close>.\<close>

lemma parseLoginRedirectUrl_success:
  "parseLoginRedirectUrl tail url = Inr c \<Longrightarrow>
     startsWith url ''nc://'' \<and> startsWith (drop 5 url) ''login/''
     \<and> server c \<noteq> [] \<and> user c \<noteq> [] \<and> password c \<noteq> []
     \<and> (\<exists>p. newURL tail (server c) = Some p \<and> startsWith p ''http'')"
  by (auto simp: parseLoginRedirectUrl_def Let_def missing_def required_def
        split: if_splits option.splits)

text \<open>The callback of scenario A is rejected whatever the URL parser accepts after a
  scheme: its server value has no scheme.\<close>

lemma scenario_A_rejected_by_every_parser:
  "parseLoginRedirectUrl tail
     ''nc://login/server:https%3A%2F%2Fcloud.example.com&user:alice&password:secret+pw''
   = Inl (InvalidServerUrl ''https%3A%2F%2Fcloud.example.com'' ''Invalid URL'')"
  by code_simp

text \<open>A key that no pair of the parameter list sets is missing, and the parser throws:
  for the keys \<open>server\<close>, \<open>user\<close> and \<open>password\<close>, a callback none of whose pairs starts
  with the key and a colon is rejected.\<close>

lemma indexOf_prefix:
  "indexOf c s = Some i \<Longrightarrow> take (Suc i) s = take i s @ [c]"
proof (induction s arbitrary: i)
  case Nil
  then show ?case by simp
next
  case (Cons x xs)
  then show ?case by (auto split: if_splits)
qed

lemma parsePair_sets_key:
  assumes "parsePair p m k \<noteq> m k"
  shows "startsWith p (k @ '':'')"
proof -
  from assms obtain i where i: "indexOf CHR '':'' p = Some i" and k: "k = take i p"
    and v: "drop (i + 1) p \<noteq> []"
    by (auto simp: parsePair_def Let_def split: if_splits option.splits)
  from v have "Suc i \<le> length p" by (cases "Suc i \<le> length p") simp_all
  then have "length (k @ '':'') = Suc i" using k by simp
  with indexOf_prefix[OF i] k show ?thesis by (simp add: startsWith_def)
qed

lemma parsePairs_sets_key:
  "parsePairs ps m k \<noteq> m k \<Longrightarrow> \<exists>p \<in> set ps. startsWith p (k @ '':'')"
proof (induction ps arbitrary: m)
  case Nil
  then show ?case by simp
next
  case (Cons p ps)
  show ?case
  proof (cases "parsePair p m k = m k")
    case True
    with Cons.prems have "parsePairs ps (parsePair p m) k \<noteq> parsePair p m k" by simp
    from Cons.IH[OF this] show ?thesis by auto
  next
    case False
    then show ?thesis using parsePair_sets_key by auto
  qed
qed

lemma missing_key_rejected:
  assumes "k = ''server'' \<or> k = ''user'' \<or> k = ''password''"
    and "\<forall>p \<in> set (js_split CHR ''&'' (drop 11 url)). \<not> startsWith p (k @ '':'')"
  shows "\<exists>e. parseLoginRedirectUrl tail url = Inl e"
proof -
  have "parsePairs (js_split CHR ''&'' (drop 11 url)) Map.empty k = Map.empty k"
    using assms(2) parsePairs_sets_key by blast
  then have "missing (parsePairs (js_split CHR ''&'' (drop 11 url)) Map.empty) k"
    by (simp add: missing_def)
  with assms(1) show ?thesis
    by (auto simp: parseLoginRedirectUrl_def Let_def split: option.splits)
qed

text \<open>An encoded value holds neither the colon nor the ampersand, and a string without
  a colon is not accepted by the URL constructor.\<close>

lemma hexDigit_range: "hexDigit n \<in> set ''0123456789ABCDEF''"
  unfolding hexDigit_def by (rule nth_mem) simp

lemma encodeURIComponent_chars:
  "x \<in> set (encodeURIComponent s) \<Longrightarrow>
     uriUnreserved x \<or> x = CHR ''%'' \<or> x \<in> set ''0123456789ABCDEF''"
  using hexDigit_range
  by (auto simp: encodeURIComponent_def pctEncode_def split: if_splits)

lemma encodeURIComponent_no_delimiter:
  "CHR '':'' \<notin> set (encodeURIComponent v)" "CHR ''&'' \<notin> set (encodeURIComponent v)"
proof -
  have "x \<in> set (encodeURIComponent v) \<Longrightarrow> x \<noteq> CHR '':'' \<and> x \<noteq> CHR ''&''" for x
    using encodeURIComponent_chars[of x v] by (auto simp: uriUnreserved_def)
  then show "CHR '':'' \<notin> set (encodeURIComponent v)" "CHR ''&'' \<notin> set (encodeURIComponent v)"
    by blast+
qed

lemma replace_pct20_chars: "x \<in> set (replace_pct20 s) \<Longrightarrow> x \<in> set s \<or> x = CHR ''+''"
  by (induction s rule: replace_pct20.induct) (auto split: if_splits)

lemma encodeValue_no_delimiter:
  "CHR '':'' \<notin> set (encodeValue v)" "CHR ''&'' \<notin> set (encodeValue v)"
proof -
  have "x \<in> set (encodeValue v) \<Longrightarrow> x \<noteq> CHR '':'' \<and> x \<noteq> CHR ''&''" for x
    using replace_pct20_chars[of x "encodeURIComponent v"] encodeURIComponent_no_delimiter[of v]
    by (auto simp: encodeValue_def)
  then show "CHR '':'' \<notin> set (encodeValue v)" "CHR ''&'' \<notin> set (encodeValue v)"
    by blast+
qed

lemma replace_pct20_nonempty: "s \<noteq> [] \<Longrightarrow> replace_pct20 s \<noteq> []"
  by (induction s rule: replace_pct20.induct) auto

lemma encodeValue_nonempty: "v \<noteq> [] \<Longrightarrow> encodeValue v \<noteq> []"
  unfolding encodeValue_def
  by (rule replace_pct20_nonempty)
     (cases v; simp add: encodeURIComponent_def pctEncode_def)

lemma urlScheme_needs_colon:
  assumes "CHR '':'' \<notin> set s"
  shows "urlScheme s = None"
proof (cases s)
  case Nil
  then show ?thesis by (simp add: urlScheme_def)
next
  case (Cons c cs)
  have "dropWhile isSchemeChar cs \<noteq> CHR '':'' # rest" for rest
  proof
    assume "dropWhile isSchemeChar cs = CHR '':'' # rest"
    then have "CHR '':'' \<in> set (dropWhile isSchemeChar cs)" by simp
    then have "CHR '':'' \<in> set cs" by (rule set_dropWhileD)
    with assms Cons show False by simp
  qed
  with Cons show ?thesis
    by (auto simp: urlScheme_def split: list.splits)
qed

lemma urlInput_chars:
  assumes "x \<in> set (urlInput s)"
  shows "x \<in> set s"
proof -
  from assms have "x \<in> set (dropWhile isC0OrSpace (rev (dropWhile isC0OrSpace s)))"
    by (simp add: urlInput_def)
  then have "x \<in> set (rev (dropWhile isC0OrSpace s))" by (rule set_dropWhileD)
  then have "x \<in> set (dropWhile isC0OrSpace s)" by simp
  then show ?thesis by (rule set_dropWhileD)
qed

lemma newURL_needs_colon:
  assumes "CHR '':'' \<notin> set s"
  shows "newURL tail s = None"
proof -
  have "CHR '':'' \<notin> set (urlInput s)" using assms urlInput_chars by blast
  then show ?thesis by (simp add: newURL_def urlScheme_needs_colon)
qed

text \<open>Splitting a string that was joined with a separator its parts do not hold.\<close>

lemma js_split_no_separator: "c \<notin> set a \<Longrightarrow> js_split c a = [a]"
  by (induction a) auto

lemma js_split_at_separator: "c \<notin> set a \<Longrightarrow> js_split c (a @ c # b) = a # js_split c b"
  by (induction a) auto

lemma js_split_joined:
  "c \<notin> set q \<Longrightarrow> \<forall>p \<in> set ps. c \<notin> set p \<Longrightarrow>
     js_split c (q @ concat (map (\<lambda>p. c # p) ps)) = q # ps"
proof (induction ps arbitrary: q)
  case Nil
  then show ?case by (simp add: js_split_no_separator)
next
  case (Cons p ps)
  then show ?case by (simp add: js_split_at_separator)
qed

lemma parsePair_server:
  "v \<noteq> [] \<Longrightarrow> parsePair (''server:'' @ v) m = m(''server'' \<mapsto> v)"
  by (simp add: parsePair_def)

lemma parsePair_keeps_server:
  "parsePair (''user:'' @ v) m ''server'' = m ''server''"
  "parsePair (''password:'' @ v) m ''server'' = m ''server''"
  "parsePair (''code:'' @ v) m ''server'' = m ''server''"
  "parsePair (''state:'' @ v) m ''server'' = m ''server''"
  by (simp_all add: parsePair_def Let_def)

lemma parsePairs_keeps_server:
  "(\<And>p m. p \<in> set ps \<Longrightarrow> parsePair p m ''server'' = m ''server'') \<Longrightarrow>
     parsePairs ps m ''server'' = m ''server''"
  by (induction ps arbitrary: m) simp_all

text \<open>
  No URL that \<open>buildLoginRedirectUrl\<close> returns is accepted by \<open>parseLoginRedirectUrl\<close>,
  for any record and whatever the URL constructor accepts after a scheme: the server
  value of the built URL is percent-encoded, holds no colon, and so has no scheme.
\<close>

lemma build_output_never_parses:
  assumes built: "buildLoginRedirectUrl tail c = Inr u"
  shows "\<exists>e. parseLoginRedirectUrl tail' u = Inl e"
proof -
  define A where "A = ''server:'' @ encodeValue (server c)"
  define B where "B = ''user:'' @ encodeValue (user c)"
  define P where "P = ''password:'' @ encodeValue (password c)"
  define X where "X = (case code c of None \<Rightarrow> []
                       | Some v \<Rightarrow> if v = [] then [] else [''code:'' @ encodeValue v])"
  define Y where "Y = (case state c of None \<Rightarrow> []
                       | Some v \<Rightarrow> if v = [] then [] else [''state:'' @ encodeValue v])"
  define opt where "opt = concat (map (\<lambda>p. CHR ''&'' # p) (X @ Y))"
  from built have srv: "server c \<noteq> []"
    and u: "u = ''nc://login/'' @ A @ CHR ''&'' # B @ CHR ''&'' # P @ opt"
    by (auto simp: buildLoginRedirectUrl_def A_def B_def P_def X_def Y_def opt_def
          split: if_splits option.splits)
  have amp: "CHR ''&'' \<notin> set A" "CHR ''&'' \<notin> set B" "CHR ''&'' \<notin> set P"
    by (simp_all add: A_def B_def P_def encodeValue_no_delimiter)
  have amp_opt: "p \<in> set (X @ Y) \<Longrightarrow> CHR ''&'' \<notin> set p" for p
    by (auto simp: X_def Y_def encodeValue_no_delimiter split: option.splits if_splits)
  have keep: "p \<in> set (B # P # X @ Y) \<Longrightarrow> parsePair p m ''server'' = m ''server''" for p m
    by (auto simp: B_def P_def X_def Y_def parsePair_keeps_server[simplified]
          split: option.splits if_splits)
  have split_opt: "js_split CHR ''&'' (P @ opt) = P # X @ Y"
    unfolding opt_def using amp(3) amp_opt by (intro js_split_joined) auto
  have pairs: "js_split CHR ''&'' (A @ CHR ''&'' # B @ CHR ''&'' # P @ opt) = A # B # P # X @ Y"
    by (simp add: js_split_at_separator amp split_opt)
  have nonempty: "A @ CHR ''&'' # B @ CHR ''&'' # P @ opt \<noteq> []" by simp
  have "parsePairs (A # B # P # X @ Y) Map.empty ''server''
          = (parsePair A Map.empty) ''server''"
    using parsePairs_keeps_server[of "B # P # X @ Y" "parsePair A Map.empty"] keep by simp
  also have "\<dots> = Some (encodeValue (server c))"
    using srv by (simp add: A_def parsePair_server[simplified] encodeValue_nonempty)
  finally have server_param:
    "parsePairs (A # B # P # X @ Y) Map.empty ''server'' = Some (encodeValue (server c))" .
  have no_url: "newURL tail' (encodeValue (server c)) = None"
    by (rule newURL_needs_colon) (rule encodeValue_no_delimiter)
  have start: "startsWith u ''nc://''"
    "drop 5 u = ''login/'' @ A @ CHR ''&'' # B @ CHR ''&'' # P @ opt"
    by (simp_all add: u startsWith_def)
  have start2: "startsWith (drop 5 u) ''login/''"
    "drop 6 (drop 5 u) = A @ CHR ''&'' # B @ CHR ''&'' # P @ opt"
    by (simp_all add: start(2) startsWith_def)
  show ?thesis
    using start(1) start2 pairs server_param no_url nonempty u
    by (simp add: parseLoginRedirectUrl_def Let_def required_def split: if_splits)
qed

text \<open>
  Claim C1 at one record. \<open>buildLoginRedirectUrl\<close> percent-encodes the server value, and
  \<open>parseLoginRedirectUrl\<close> keeps the server value as it stands and hands it to the URL
  constructor, which finds no scheme in it: decoding the encoded record throws.
\<close>

theorem build_then_parse_fails:
  "buildLoginRedirectUrl anyTail
     \<lparr> server = ''https://cloud.example.com'', user = ''alice'', password = ''secret'',
       code = None, state = None \<rparr>
     = Inr ''nc://login/server:https%3A%2F%2Fcloud.example.com&user:alice&password:secret''
   \<and> parseLoginRedirectUrl anyTail
        ''nc://login/server:https%3A%2F%2Fcloud.example.com&user:alice&password:secret''
     = Inl (InvalidServerUrl ''https%3A%2F%2Fcloud.example.com'' ''Invalid URL'')"
  by code_simp

text \<open>
  Claim C2, as the code has it. The parser keeps the server value as it stands, so the
  callback that decodes to the record of scenario A is the one whose server value is not
  percent-encoded: \<open>nc://login/server:https://cloud.example.com&user:alice&password:secret+pw\<close>
  decodes to server \<open>https://cloud.example.com\<close>, user \<open>alice\<close>, password \<open>secret pw\<close>
  and no code or state, provided the URL constructor accepts \<open>https://cloud.example.com\<close>.
\<close>

theorem parse_scenario_A_raw_server:
  "tail ''https'' ''//cloud.example.com'' \<Longrightarrow>
   parseLoginRedirectUrl tail
     ''nc://login/server:https://cloud.example.com&user:alice&password:secret+pw''
   = Inr \<lparr> server = ''https://cloud.example.com'', user = ''alice'', password = ''secret pw'',
           code = None, state = None \<rparr>"
  apply code_simp
  apply (simp add: required_def optional_def startsWith_def)
  done

text \<open>The theorem of claim C2 for the permissive URL parser.\<close>

theorem parse_scenario_A_raw_server_witness:
  "anyTail ''https'' ''//cloud.example.com'' \<and>
   parseLoginRedirectUrl anyTail
     ''nc://login/server:https://cloud.example.com&user:alice&password:secret+pw''
   = Inr \<lparr> server = ''https://cloud.example.com'', user = ''alice'', password = ''secret pw'',
           code = None, state = None \<rparr>"
proof -
  have h: "anyTail ''https'' ''//cloud.example.com''" by (simp add: anyTail_def)
  from parse_scenario_A_raw_server[of anyTail, OF h] h show ?thesis by simp
qed

text \<open>
  Claim C2 as stated fails: the callback of scenario A, with the percent-encoded server
  value, does not decode to a record; the parser throws \<open>Invalid server URL\<close>.
\<close>

theorem parse_scenario_A_fails:
  "parseLoginRedirectUrl anyTail
     ''nc://login/server:https%3A%2F%2Fcloud.example.com&user:alice&password:secret+pw''
   = Inl (InvalidServerUrl ''https%3A%2F%2Fcloud.example.com'' ''Invalid URL'')"
  by code_simp

text \<open>
  Claim C6 at one URL. The parser tests the protocol of the server URL with
  \<^verbatim>\<open>startsWith('http')\<close>, so a server value whose scheme merely begins with \<open>http\<close> is
  accepted: the callback below, whose server \<open>httpx://h\<close> is neither an http nor an https
  URL, decodes to a record.
\<close>

theorem parse_accepts_httpx_server:
  "parseLoginRedirectUrl anyTail ''nc://login/server:httpx://h&user:a&password:b''
     = Inr \<lparr> server = ''httpx://h'', user = ''a'', password = ''b'', code = None, state = None \<rparr>"
  by code_simp

section \<open>Properties of the login flow orchestrator\<close>

lemma resolution_resolve:
  "resolution (resolve w st) = (case resolution st of None \<Rightarrow> Some w | Some v \<Rightarrow> Some v)"
  by (simp add: resolve_def split: option.splits)

lemma closing_resolve: "closing (resolve w st) = closing st"
  by (simp add: resolve_def split: option.splits)

text \<open>No task changes a resolution that was delivered, and no task reopens the window.\<close>

lemma step_keeps_resolution:
  "resolution st = Some v \<Longrightarrow> resolution (step ses e st) = Some v"
  by (cases e)
     (simp_all add: didFinishLoad_def willRedirect_def willNavigate_def windowClose_def
        resolution_resolve Let_def split: sum.splits option.splits)

lemma step_keeps_closing: "closing st \<Longrightarrow> closing (step ses e st)"
  by (cases e)
     (simp_all add: didFinishLoad_def willRedirect_def willNavigate_def windowClose_def
        closing_resolve Let_def split: sum.splits option.splits)

text \<open>The task that delivers the resolution leaves the window closing.\<close>

lemma step_closes_on_resolution:
  "resolution st = None \<Longrightarrow> resolution (step ses e st) = Some v \<Longrightarrow> closing (step ses e st)"
  by (cases e)
     (auto simp: didFinishLoad_def willRedirect_def willNavigate_def windowClose_def
        closing_resolve resolution_resolve Let_def split: sum.splits option.splits if_splits)

lemma run_append: "run ses (xs @ ys) st = run ses ys (run ses xs st)"
  by (induction xs arbitrary: st) simp_all

lemma run_keeps_resolution:
  "resolution st = Some v \<Longrightarrow> resolution (run ses es st) = Some v"
  by (induction es arbitrary: st) (simp_all add: step_keeps_resolution)

lemma run_keeps_closing: "closing st \<Longrightarrow> closing (run ses es st)"
  by (induction es arbitrary: st) (simp_all add: step_keeps_closing)

lemma run_closed_when_resolved:
  "resolution st = None \<Longrightarrow> resolution (run ses es st) = Some v \<Longrightarrow> closing (run ses es st)"
proof (induction es arbitrary: st)
  case Nil
  then show ?case by simp
next
  case (Cons e es)
  show ?case
  proof (cases "resolution (step ses e st)")
    case None
    with Cons show ?thesis by simp
  next
    case (Some w)
    with Cons.prems(1) have "closing (step ses e st)"
      by (rule step_closes_on_resolution)
    then show ?thesis by (simp add: run_keeps_closing)
  qed
qed

text \<open>Only the \<open>close\<close> handler resolves with the cancellation error.\<close>

lemma cancelled_only_by_close:
  "e \<noteq> Close \<Longrightarrow> resolution st = None \<Longrightarrow>
     resolution (step ses e st) \<noteq> Some (Error ''OAuth authorization was cancelled'')"
  by (cases e)
     (auto simp: didFinishLoad_def willRedirect_def willNavigate_def windowClose_def
        resolution_resolve Let_def split: sum.splits option.splits if_splits)

text \<open>
  The heuristic fallback never succeeds. The callback it simulates carries the server as
  \<^verbatim>\<open>encodeURIComponent(serverUrl)\<close>, which \<open>parseLoginRedirectUrl\<close> rejects as it rejects
  the URLs of \<open>buildLoginRedirectUrl\<close>; the \<^verbatim>\<open>catch\<close> turns the error into
  \<^verbatim>\<open>{ success: false }\<close>. (The state is assumed to hold no \<open>&\<close>; a generated state
  holds none.)
\<close>

lemma decimalDigit_range: "decimalDigit n \<in> set ''0123456789''"
  unfolding decimalDigit_def by (rule nth_mem) simp

lemma showNat_digits: "x \<in> set (showNat n) \<Longrightarrow> x \<in> set ''0123456789''"
proof (induction n rule: showNat.induct)
  case (1 n)
  show ?case
  proof (cases "n < 10")
    case True
    with "1.prems" decimalDigit_range[of n] show ?thesis
      by (subst (asm) showNat.simps) simp
  next
    case False
    from "1.prems" have "x \<in> set (showNat (n div 10)) \<or> x = decimalDigit (n mod 10)"
      using False by (subst (asm) showNat.simps) auto
    with "1.IH"[OF False] decimalDigit_range[of "n mod 10"] show ?thesis by auto
  qed
qed

lemma simulatedCallback_fails:
  assumes "CHR ''&'' \<notin> set usr" "CHR ''&'' \<notin> set pwd" "CHR ''&'' \<notin> set (sessionState ses)"
  shows "\<exists>e. simulatedCallback ses usr pwd = Inl e"
proof -
  define E where "E = encodeURIComponent (sessionServerUrl ses)"
  define A where "A = ''server:'' @ E"
  define B where "B = ''user:'' @ usr"
  define P where "P = ''password:'' @ pwd"
  define S where "S = ''state:'' @ sessionState ses"
  define u where "u = ''nc://login/'' @ A @ CHR ''&'' # B @ CHR ''&'' # P @ CHR ''&'' # S"
  have call: "simulatedCallback ses usr pwd = parseLoginRedirectUrl (sessionTail ses) u"
    by (simp add: simulatedCallback_def u_def A_def B_def P_def S_def E_def)
  have amp: "CHR ''&'' \<notin> set A" "CHR ''&'' \<notin> set B" "CHR ''&'' \<notin> set P" "CHR ''&'' \<notin> set S"
    using assms by (simp_all add: A_def B_def P_def S_def E_def encodeURIComponent_no_delimiter)
  have pairs: "js_split CHR ''&'' (A @ CHR ''&'' # B @ CHR ''&'' # P @ CHR ''&'' # S) = [A, B, P, S]"
    by (simp add: js_split_at_separator js_split_no_separator amp)
  have keep: "p \<in> set [B, P, S] \<Longrightarrow> parsePair p m ''server'' = m ''server''" for p m
    by (auto simp: B_def P_def S_def parsePair_keeps_server[simplified])
  have "parsePairs [A, B, P, S] Map.empty ''server'' = (parsePair A Map.empty) ''server''"
    using parsePairs_keeps_server[of "[B, P, S]" "parsePair A Map.empty"] keep by simp
  also have "\<dots> = (if E = [] then None else Some E)"
    by (simp add: A_def parsePair_def)
  finally have server_param:
    "parsePairs [A, B, P, S] Map.empty ''server'' = (if E = [] then None else Some E)" .
  have no_url: "newURL (sessionTail ses) E = None"
    unfolding E_def by (rule newURL_needs_colon) (rule encodeURIComponent_no_delimiter)
  have start: "startsWith u ''nc://''"
    "drop 5 u = ''login/'' @ A @ CHR ''&'' # B @ CHR ''&'' # P @ CHR ''&'' # S"
    by (simp_all add: u_def startsWith_def)
  have start2: "startsWith (drop 5 u) ''login/''"
    "drop 6 (drop 5 u) = A @ CHR ''&'' # B @ CHR ''&'' # P @ CHR ''&'' # S"
    by (simp_all add: start(2) startsWith_def)
  have "\<exists>e. parseLoginRedirectUrl (sessionTail ses) u = Inl e"
    using start(1) start2 pairs server_param no_url
    by (simp add: parseLoginRedirectUrl_def Let_def required_def missing_def split: if_splits)
  with call show ?thesis by simp
qed

lemma fallback_never_succeeds:
  assumes "CHR ''&'' \<notin> set (sessionState ses)"
  shows "handleGrantPageCompletionFallback ses probe currentUrl now = None"
proof -
  have digits: "CHR ''&'' \<notin> set (showNat now)" using showNat_digits[of "CHR ''&''" now] by auto
  have a: "\<exists>e. simulatedCallback ses (encodeURIComponent nm) (''fallback_token_'' @ showNat now) = Inl e"
    for nm
    by (rule simulatedCallback_fails) (simp_all add: encodeURIComponent_no_delimiter digits assms)
  have b: "\<exists>e. simulatedCallback ses ''nextcloud_user'' (''main_page_token_'' @ showNat now) = Inl e"
    by (rule simulatedCallback_fails) (simp_all add: digits assms)
  show ?thesis
  proof (cases probe)
    case ProbeThrew
    then show ?thesis by (simp add: handleGrantPageCompletionFallback_def)
  next
    case ProbeError
    with b show ?thesis by (auto simp: handleGrantPageCompletionFallback_def)
  next
    case (ProbeInfo info)
    with a[of "userName info"] b show ?thesis
      by (auto simp: handleGrantPageCompletionFallback_def)
  qed
qed

text \<open>
  Inside the login window the first resolution wins and the window closes. Open the
  window and let any tasks \<open>evs\<close> run, in any order. If the promise of
  \<open>openLoginWebView\<close> has been resolved with \<open>v\<close> by then, then after any further tasks
  \<open>later\<close> (callback redirects, navigations to the callback, fallback results, exchange
  results, the close of the window) the promise still holds \<open>v\<close>: the first signal won
  and the later ones delivered nothing. And the window is closing: \<^verbatim>\<open>window.close()\<close>
  was called in the task that resolved, or the window's \<open>close\<close> event was what resolved.
\<close>

lemma first_resolution_wins_and_window_closes:
  "resolution (run ses evs initialOrchestrator) = Some v \<Longrightarrow>
     resolution (run ses (evs @ later) initialOrchestrator) = Some v
     \<and> closing (run ses (evs @ later) initialOrchestrator)"
proof -
  assume r: "resolution (run ses evs initialOrchestrator) = Some v"
  have "resolution initialOrchestrator = None" by (simp add: initialOrchestrator_def)
  from run_closed_when_resolved[OF this r]
  have "closing (run ses evs initialOrchestrator)" .
  with r show ?thesis
    by (simp add: run_append run_keeps_resolution run_keeps_closing)
qed

text \<open>For example: a navigation to a plain callback, followed by the close of the window
  and a redirect to another callback; the first credentials stay.\<close>

lemma first_resolution_wins_and_window_closes_example:
  "resolution (run exampleSession
       [WillNavigate ''nc://login/server:https://cloud.example.com&user:alice&password:pw'']
       initialOrchestrator)
     = Some (Credentials \<lparr> server = ''https://cloud.example.com'', user = ''alice'',
                password = ''pw'', code = None, state = None \<rparr>)
   \<and> resolution (run exampleSession
       ([WillNavigate ''nc://login/server:https://cloud.example.com&user:alice&password:pw'']
        @ [Close, WillRedirect ''nc://login/server:https://cloud.example.com&user:bob&password:x''])
       initialOrchestrator)
     = Some (Credentials \<lparr> server = ''https://cloud.example.com'', user = ''alice'',
                password = ''pw'', code = None, state = None \<rparr>)
   \<and> closing (run exampleSession
       ([WillNavigate ''nc://login/server:https://cloud.example.com&user:alice&password:pw'']
        @ [Close, WillRedirect ''nc://login/server:https://cloud.example.com&user:bob&password:x''])
       initialOrchestrator)"
proof -
  have h: "resolution (run exampleSession
       [WillNavigate ''nc://login/server:https://cloud.example.com&user:alice&password:pw'']
       initialOrchestrator)
     = Some (Credentials \<lparr> server = ''https://cloud.example.com'', user = ''alice'',
                password = ''pw'', code = None, state = None \<rparr>)"
    by code_simp
  from first_resolution_wins_and_window_closes[OF h] h show ?thesis by blast
qed

text \<open>
  Claim C5 at two runs of the IPC handler, the caller of \<open>openLoginWebView\<close> through
  which the user interface receives the result.
  \<^item> A deep link arrives while the login window is open: the handler resolves with the
    credentials of the deep link, and the login window is not closing and its own promise
    is still pending.
  \<^item> The login window resolves first (a redirect to a plain callback for \<open>alice\<close>) and a
    deep link for \<open>bob\<close> arrives afterwards, before the 40 second timer: the handler
    resolves with the credentials of the deep link, the later signal.
\<close>

theorem deep_link_reply_leaves_window_open:
  "reply (ipcRun exampleSession
       [DeepLink ''nc://login/server:https://cloud.example.com&user:alice&password:pw'']
       initialIpcCall)
     = Some (Credentials \<lparr> server = ''https://cloud.example.com'', user = ''alice'',
                password = ''pw'', code = None, state = None \<rparr>)
   \<and> \<not> closing (loginWindow (ipcRun exampleSession
       [DeepLink ''nc://login/server:https://cloud.example.com&user:alice&password:pw'']
       initialIpcCall))
   \<and> resolution (loginWindow (ipcRun exampleSession
       [DeepLink ''nc://login/server:https://cloud.example.com&user:alice&password:pw'']
       initialIpcCall)) = None
   \<and> resolution (loginWindow (ipcRun exampleSession
       [LoginWindow
          (WillRedirect ''nc://login/server:https://cloud.example.com&user:alice&password:pw''),
        DeepLink ''nc://login/server:https://cloud.example.com&user:bob&password:x'']
       initialIpcCall))
     = Some (Credentials \<lparr> server = ''https://cloud.example.com'', user = ''alice'',
                password = ''pw'', code = None, state = None \<rparr>)
   \<and> reply (ipcRun exampleSession
       [LoginWindow
          (WillRedirect ''nc://login/server:https://cloud.example.com&user:alice&password:pw''),
        DeepLink ''nc://login/server:https://cloud.example.com&user:bob&password:x'']
       initialIpcCall)
     = Some (Credentials \<lparr> server = ''https://cloud.example.com'', user = ''bob'',
                password = ''x'', code = None, state = None \<rparr>)"
  by code_simp

text \<open>
  Claim C8, as the code has it. If the window is closed while the promise is pending and
  no exchange of an authorization code has been started (\<open>codeExchanged\<close> is unset), the
  promise of \<open>openLoginWebView\<close> resolves with the error \<open>OAuth authorization was cancelled\<close>, and stays so
  whatever runs later. No other task resolves with this value, so it is told apart from
  credentials and from every other error.
\<close>

theorem close_before_exchange_cancels:
  "resolution st = None \<Longrightarrow> \<not> codeExchanged st \<Longrightarrow>
     resolution (run ses later (step ses Close st))
       = Some (Error ''OAuth authorization was cancelled'')
     \<and> (\<forall>e st'. e \<noteq> Close \<and> resolution st' = None \<longrightarrow>
           resolution (step ses e st') \<noteq> Some (Error ''OAuth authorization was cancelled''))"
proof -
  assume a: "resolution st = None" "\<not> codeExchanged st"
  then have "resolution (step ses Close st) = Some (Error ''OAuth authorization was cancelled'')"
    by (simp add: Let_def resolution_resolve)
  then have "resolution (run ses later (step ses Close st))
       = Some (Error ''OAuth authorization was cancelled'')"
    by (rule run_keeps_resolution)
  then show ?thesis using cancelled_only_by_close by blast
qed

text \<open>The theorem of claim C8 for a window closed right after it was opened; the callback
  that arrives afterwards changes nothing.\<close>

theorem close_before_exchange_cancels_witness:
  "resolution initialOrchestrator = None \<and> \<not> codeExchanged initialOrchestrator
   \<and> resolution (run exampleSession
        [WillRedirect ''nc://login/server:https://cloud.example.com&user:alice&password:x'']
        (step exampleSession Close initialOrchestrator))
       = Some (Error ''OAuth authorization was cancelled'')"
proof -
  have h: "resolution initialOrchestrator = None" "\<not> codeExchanged initialOrchestrator"
    by (simp_all add: initialOrchestrator_def)
  from close_before_exchange_cancels[OF h] h show ?thesis by blast
qed

text \<open>
  Claim C8 as stated fails: a redirect to a callback that carries a code and the
  session's state starts the exchange and leaves the promise pending; the user closes the
  window, and the promise is still pending, not cancelled; the token response then
  resolves the attempt with credentials.
\<close>

theorem close_during_exchange_does_not_cancel:
  "resolution (run exampleSession
      [WillRedirect ''nc://login/server:https://cloud.example.com&user:alice&password:x&code:abc&state:st4te'']
      initialOrchestrator) = None
   \<and> resolution (run exampleSession
      [WillRedirect ''nc://login/server:https://cloud.example.com&user:alice&password:x&code:abc&state:st4te'',
       Close]
      initialOrchestrator) = None
   \<and> resolution (run exampleSession
      [WillRedirect ''nc://login/server:https://cloud.example.com&user:alice&password:x&code:abc&state:st4te'',
       Close,
       ExchangeResult (JObj [(''access_token'', JStr ''tok123''), (''user_id'', JStr ''alice'')])]
      initialOrchestrator)
     = Some (OAuthCredentials
         \<lparr> oauthServer = ''https://cloud.example.com'', oauthUser = Some (JStr ''alice''),
           oauthPassword = Some (JStr ''tok123''),
           tokenData = JObj [(''access_token'', JStr ''tok123''), (''user_id'', JStr ''alice'')] \<rparr>)"
  by code_simp

end
